theory Spec2Isabelle
  imports Main "HOL-Library.Char_ord" "HOL-Library.List_Lexorder" "HOL-Library.AList"
begin

section \<open>Strings and paths of the Go standard library\<close>

text \<open>
  A Go string is a sequence of bytes, and so is \<^typ>\<open>string\<close>. The order on strings is
  the bytewise lexicographic one of Go's \<^verbatim>\<open><\<close>. The loops of the source that range over
  the runes of a string only ever single out ASCII characters; every byte of a multi-byte
  rune is at least 0x80 and falls into the same "other character" branch as the rune itself,
  so these loops are modelled over bytes.
\<close>

definition HasPrefix :: "string \<Rightarrow> string \<Rightarrow> bool" where
  "HasPrefix s p = (take (length p) s = p)"

definition HasSuffix :: "string \<Rightarrow> string \<Rightarrow> bool" where
  "HasSuffix s p = (length p \<le> length s \<and> drop (length s - length p) s = p)"

definition TrimSuffix :: "string \<Rightarrow> string \<Rightarrow> string" where
  "TrimSuffix s p = (if HasSuffix s p then take (length s - length p) s else s)"

fun Contains :: "string \<Rightarrow> string \<Rightarrow> bool" where
  "Contains [] sub = (sub = [])"
| "Contains (c # cs) sub = (HasPrefix (c # cs) sub \<or> Contains cs sub)"

text \<open>The white space of \<^verbatim>\<open>unicode.IsSpace\<close>, each rune in its UTF-8 encoding.\<close>

definition spaceRunes :: "string list" where
  "spaceRunes =
    [[CHR 0x09], [CHR 0x0A], [CHR 0x0B], [CHR 0x0C], [CHR 0x0D], [CHR 0x20],
     [CHR 0xC2, CHR 0x85], [CHR 0xC2, CHR 0xA0], [CHR 0xE1, CHR 0x9A, CHR 0x80],
     [CHR 0xE2, CHR 0x80, CHR 0x80], [CHR 0xE2, CHR 0x80, CHR 0x81],
     [CHR 0xE2, CHR 0x80, CHR 0x82], [CHR 0xE2, CHR 0x80, CHR 0x83],
     [CHR 0xE2, CHR 0x80, CHR 0x84], [CHR 0xE2, CHR 0x80, CHR 0x85],
     [CHR 0xE2, CHR 0x80, CHR 0x86], [CHR 0xE2, CHR 0x80, CHR 0x87],
     [CHR 0xE2, CHR 0x80, CHR 0x88], [CHR 0xE2, CHR 0x80, CHR 0x89],
     [CHR 0xE2, CHR 0x80, CHR 0x8A], [CHR 0xE2, CHR 0x80, CHR 0xA8],
     [CHR 0xE2, CHR 0x80, CHR 0xA9], [CHR 0xE2, CHR 0x80, CHR 0xAF],
     [CHR 0xE2, CHR 0x81, CHR 0x9F], [CHR 0xE3, CHR 0x80, CHR 0x80]]"

definition leadingRune :: "string list \<Rightarrow> string \<Rightarrow> nat" where
  "leadingRune rs s = (case find (\<lambda>r. r \<noteq> [] \<and> HasPrefix s r) rs of None \<Rightarrow> 0 | Some r \<Rightarrow> length r)"

function trimLeftRunes :: "string list \<Rightarrow> string \<Rightarrow> string" where
  "trimLeftRunes rs s =
     (if leadingRune rs s = 0 then s else trimLeftRunes rs (drop (leadingRune rs s) s))"
  by pat_completeness auto
termination
proof (relation "measure (\<lambda>(rs, s). length s)")
  show "wf (measure (\<lambda>(rs, s). length s))" by simp
next
  fix rs :: "string list" and s :: string
  assume nz: "leadingRune rs s \<noteq> 0"
  have "leadingRune rs s \<le> length s"
  proof (cases "find (\<lambda>r. r \<noteq> [] \<and> HasPrefix s r) rs")
    case None
    then show ?thesis by (simp add: leadingRune_def)
  next
    case (Some r)
    then have "HasPrefix s r" by (auto simp: find_Some_iff)
    then have "length (take (length r) s) = length r"
      unfolding HasPrefix_def by simp
    then have "length r \<le> length s" by simp
    with Some show ?thesis by (simp add: leadingRune_def)
  qed
  with nz show "((rs, drop (leadingRune rs s) s), (rs, s)) \<in> measure (\<lambda>(rs, s). length s)"
    by simp
qed

declare trimLeftRunes.simps [simp del]

definition TrimSpace :: "string \<Rightarrow> string" where
  "TrimSpace s = rev (trimLeftRunes (map rev spaceRunes) (rev (trimLeftRunes spaceRunes s)))"

definition upperLetters :: string where "upperLetters = ''ABCDEFGHIJKLMNOPQRSTUVWXYZ''"
definition lowerLetters :: string where "lowerLetters = ''abcdefghijklmnopqrstuvwxyz''"

text \<open>\<^verbatim>\<open>strings.ToLower\<close> on ASCII text; the source applies it to names that already matched
  the ASCII-only name pattern.\<close>

definition ToLower :: "string \<Rightarrow> string" where
  "ToLower s = map (\<lambda>c. case map_of (zip upperLetters lowerLetters) c of None \<Rightarrow> c | Some l \<Rightarrow> l) s"

definition digitChar :: "nat \<Rightarrow> char" where
  "digitChar d = ''0123456789'' ! d"

fun itoa :: "nat \<Rightarrow> string" where
  "itoa n = (if n < 10 then [digitChar n] else itoa (n div 10) @ [digitChar (n mod 10)])"

declare itoa.simps [simp del]

definition isLower :: "char \<Rightarrow> bool" where "isLower c = (CHR ''a'' \<le> c \<and> c \<le> CHR ''z'')"
definition isUpper :: "char \<Rightarrow> bool" where "isUpper c = (CHR ''A'' \<le> c \<and> c \<le> CHR ''Z'')"
definition isDigit :: "char \<Rightarrow> bool" where "isDigit c = (CHR ''0'' \<le> c \<and> c \<le> CHR ''9'')"
definition isAlnum :: "char \<Rightarrow> bool" where "isAlnum c = (isLower c \<or> isUpper c \<or> isDigit c)"

text \<open>Splitting at a separator character, empty fields included.\<close>

fun splitOn :: "char \<Rightarrow> string \<Rightarrow> string list" where
  "splitOn sep [] = [[]]"
| "splitOn sep (c # cs) =
     (if c = sep then [] # splitOn sep cs
      else (case splitOn sep cs of [] \<Rightarrow> [[c]] | f # fs \<Rightarrow> (c # f) # fs))"

fun joinWith :: "string \<Rightarrow> string list \<Rightarrow> string" where
  "joinWith sep [] = []"
| "joinWith sep [x] = x"
| "joinWith sep (x # y # ys) = x @ sep @ joinWith sep (y # ys)"

text \<open>
  \<^verbatim>\<open>filepath.Clean\<close> on a Unix path, by its documented rules: separators are merged,
  \<^verbatim>\<open>.\<close> elements dropped, an inner \<^verbatim>\<open>..\<close> cancels the element before it, a \<^verbatim>\<open>..\<close> at the
  start of a rooted path is dropped and kept at the start of a relative one; the empty
  result is \<^verbatim>\<open>.\<close>. The stack of kept elements is held in reverse.
\<close>

fun cleanElems :: "bool \<Rightarrow> string list \<Rightarrow> string list \<Rightarrow> string list" where
  "cleanElems rooted stack [] = rev stack"
| "cleanElems rooted stack (e # es) =
     (if e = [] \<or> e = ''.'' then cleanElems rooted stack es
      else if e = ''..'' then
        (case stack of
           t # ts \<Rightarrow> if t \<noteq> ''..'' then cleanElems rooted ts es
                     else cleanElems rooted (e # stack) es
         | [] \<Rightarrow> if rooted then cleanElems rooted stack es
                 else cleanElems rooted (e # stack) es)
      else cleanElems rooted (e # stack) es)"

definition Clean :: "string \<Rightarrow> string" where
  "Clean path =
     (if path = [] then ''.''
      else let rooted = (hd path = CHR ''/'');
               out = (if rooted then ''/'' else []) @
                     joinWith ''/'' (cleanElems rooted [] (splitOn (CHR ''/'') path))
           in if out = [] then ''.'' else out)"

text \<open>\<^verbatim>\<open>filepath.Base\<close>: trailing slashes are stripped, the last element is returned;
  the empty path gives \<^verbatim>\<open>.\<close>, a path of slashes only gives \<^verbatim>\<open>/\<close>.\<close>

definition stripTrailingSlashes :: "string \<Rightarrow> string" where
  "stripTrailingSlashes p = rev (dropWhile (\<lambda>c. c = CHR ''/'') (rev p))"

definition Base :: "string \<Rightarrow> string" where
  "Base path =
     (if path = [] then ''.''
      else let p = stripTrailingSlashes path;
               e = rev (takeWhile (\<lambda>c. c \<noteq> CHR ''/'') (rev p))
           in if e = [] then ''/'' else e)"

section \<open>Validation (package validation)\<close>

definition MaxContainerNameLength :: nat where "MaxContainerNameLength = 63"
definition MaxContainerPathLength :: nat where "MaxContainerPathLength = 4096"
definition MaxMountNameLength :: nat where "MaxMountNameLength = 50"

text \<open>The pattern \<^verbatim>\<open>^[a-zA-Z][a-zA-Z0-9-]*$\<close>; in Go's syntax \<^verbatim>\<open>$\<close> matches at the end
  of the text only.\<close>

definition containerNameRegex :: "string \<Rightarrow> bool" where
  "containerNameRegex s =
     (case s of [] \<Rightarrow> False
      | c # cs \<Rightarrow> (isLower c \<or> isUpper c) \<and> list_all (\<lambda>d. isAlnum d \<or> d = CHR ''-'') cs)"

definition reservedNames :: "string list" where
  "reservedNames =
     [''list'', ''create'', ''delete'', ''start'', ''stop'', ''snapshot'', ''image'', ''config'']"

definition BlockedHostPaths :: "string list" where
  "BlockedHostPaths =
     [''/'', ''/root'', ''/etc'', ''/boot'', ''/proc'', ''/sys'', ''/dev'',
      ''/var/lib/lxd'', ''/var/lib/lxc'']"

definition BlockedHostPatterns :: "string list" where
  "BlockedHostPatterns = [''/.ssh'', ''/.aws'', ''/.gnupg'', ''/.config/gcloud'']"

definition RiskyHostPaths :: "string list" where
  "RiskyHostPaths = [''/home'', ''/var'', ''/tmp'', ''/opt'']"

definition BlockedContainerPaths :: "string list" where
  "BlockedContainerPaths = [''/'', ''/proc'', ''/sys'', ''/dev'']"

text \<open>An \<^verbatim>\<open>error\<close> is its message; \<open>None\<close> is \<^verbatim>\<open>nil\<close>.\<close>

type_synonym error = "string option"

text \<open>The pattern \<^verbatim>\<open>'%s'\<close> of the messages.\<close>

definition quoted :: "string \<Rightarrow> string" where
  "quoted s = [CHR 0x27] @ s @ [CHR 0x27]"

definition ValidateContainerName :: "string \<Rightarrow> error" where
  "ValidateContainerName name0 =
     (let name = TrimSpace name0 in
      if name = [] then Some ''container name cannot be empty''
      else if length name > MaxContainerNameLength then
        Some (''container name too long: '' @ itoa (length name) @ '' characters (max ''
              @ itoa MaxContainerNameLength @ '')'')
      else if \<not> containerNameRegex name then
        (if isDigit (hd name) then
           Some (''container name must start with a letter, not '' @ quoted [hd name])
         else if Contains name '' '' then Some ''container name cannot contain spaces''
         else if Contains name ''_'' then
           Some ''container name cannot contain underscores (use hyphens instead)''
         else Some ''container name contains invalid characters (allowed: letters, numbers, hyphens)'')
      else if HasPrefix name ''-'' \<or> HasSuffix name ''-'' then
        Some ''container name cannot start or end with a hyphen''
      else if Contains name ''--'' then Some ''container name cannot contain consecutive hyphens''
      else if ToLower name \<in> set reservedNames then
        Some (quoted name @ '' is a reserved name'')
      else None)"

definition ValidateMountName :: "string \<Rightarrow> error" where
  "ValidateMountName name0 =
     (let name = TrimSpace name0 in
      if name = [] then Some ''mount name cannot be empty''
      else if length name > MaxMountNameLength then
        Some (''mount name too long: '' @ itoa (length name) @ '' characters (max ''
              @ itoa MaxMountNameLength @ '')'')
      else if \<not> containerNameRegex name then
        (if isDigit (hd name) then
           Some (''mount name must start with a letter, not '' @ quoted [hd name])
         else if Contains name '' '' then Some ''mount name cannot contain spaces''
         else if Contains name ''_'' then
           Some ''mount name cannot contain underscores (use hyphens instead)''
         else Some ''mount name contains invalid characters (allowed: letters, numbers, hyphens)'')
      else if HasPrefix name ''-'' \<or> HasSuffix name ''-'' then
        Some ''mount name cannot start or end with a hyphen''
      else if Contains name ''--'' then Some ''mount name cannot contain consecutive hyphens''
      else None)"

definition isPathControlChar :: "char \<Rightarrow> bool" where
  "isPathControlChar c = (c = CHR 0x00 \<or> c = CHR 0x0A \<or> c = CHR 0x0D \<or> c = CHR 0x09)"

definition ValidateContainerPath :: "string \<Rightarrow> error" where
  "ValidateContainerPath path =
     (if path = [] then Some ''container path cannot be empty''
      else if \<not> HasPrefix path ''/'' then
        Some (''container path must be absolute (start with /): '' @ path)
      else if length path > MaxContainerPathLength then
        Some (''container path too long: '' @ itoa (length path) @ '' characters (max ''
              @ itoa MaxContainerPathLength @ '')'')
      else if list_ex isPathControlChar path then
        Some ''container path cannot contain control characters''
      else let cleanPath = Clean path in
        if Contains cleanPath ''..'' then
          Some ''container path cannot contain path traversal (..)''
        else (case find (\<lambda>blocked. cleanPath = blocked) BlockedContainerPaths of
                Some blocked \<Rightarrow>
                  Some (''mounting to '' @ quoted blocked @ '' inside container is not allowed'')
              | None \<Rightarrow> None))"

fun generateLoop :: "string \<Rightarrow> string \<Rightarrow> bool \<Rightarrow> string" where
  "generateLoop [] result prevWasHyphen = result"
| "generateLoop (c # cs) result prevWasHyphen =
     (if isAlnum c then generateLoop cs (result @ [c]) False
      else if \<not> prevWasHyphen \<and> length result > 0 then generateLoop cs (result @ ''-'') True
      else generateLoop cs result prevWasHyphen)"

definition GenerateMountName :: "string \<Rightarrow> string" where
  "GenerateMountName sourcePath =
     (let name = Base sourcePath;
          name = generateLoop name [] False;
          name = TrimSuffix name ''-'';
          name = (if name = [] \<or> isDigit (hd name) then ''mount-'' @ name else name)
      in if length name > MaxMountNameLength
         then TrimSuffix (take MaxMountNameLength name) ''-''
         else name)"

text \<open>
  The host filesystem as \<^verbatim>\<open>ValidateSourcePath\<close> consults it: \<^verbatim>\<open>filepath.Abs\<close>,
  \<^verbatim>\<open>filepath.EvalSymlinks\<close> and \<^verbatim>\<open>os.Stat\<close> (reduced to \<^verbatim>\<open>IsDir\<close>) are
  parameters. A failed call either satisfies \<^verbatim>\<open>os.IsNotExist\<close> or does not.
\<close>

datatype 'a osresult = OsOk 'a | OsNotExist string | OsError string

record hostfs =
  os_Abs :: "string \<Rightarrow> string osresult"
  os_EvalSymlinks :: "string \<Rightarrow> string osresult"
  os_StatIsDir :: "string \<Rightarrow> bool osresult"

text \<open>The three results \<^verbatim>\<open>(resolvedPath, warning, err)\<close> are returned as a triple.\<close>

definition ValidateSourcePath :: "hostfs \<Rightarrow> string \<Rightarrow> string \<times> string \<times> error" where
  "ValidateSourcePath h source =
     (if source = [] then ([], [], Some ''source path cannot be empty'')
      else case os_Abs h source of
        OsNotExist e \<Rightarrow> ([], [], Some (''failed to get absolute path: '' @ e))
      | OsError e \<Rightarrow> ([], [], Some (''failed to get absolute path: '' @ e))
      | OsOk absPath \<Rightarrow>
        (case os_EvalSymlinks h absPath of
           OsNotExist e \<Rightarrow> ([], [], Some (''source path does not exist: '' @ absPath))
         | OsError e \<Rightarrow> ([], [], Some (''failed to resolve symlinks: '' @ e))
         | OsOk resolved \<Rightarrow>
           let resolvedPath = Clean resolved in
           (case os_StatIsDir h resolvedPath of
              OsNotExist e \<Rightarrow> ([], [], Some (''source path does not exist: '' @ resolvedPath))
            | OsError e \<Rightarrow> ([], [], Some (''failed to stat source path: '' @ e))
            | OsOk isDir \<Rightarrow>
              if \<not> isDir then
                ([], [], Some (''source path must be a directory, not a file: '' @ resolvedPath))
              else if list_ex (\<lambda>blocked. resolvedPath = blocked) BlockedHostPaths then
                ([], [], Some (''mounting '' @ quoted resolvedPath
                               @ '' is not allowed for security reasons''))
              else (case find (\<lambda>pattern. HasSuffix resolvedPath pattern) BlockedHostPatterns of
                Some pattern \<Rightarrow>
                  ([], [], Some (''mounting paths matching '' @ quoted pattern
                                 @ '' is not allowed for security reasons''))
              | None \<Rightarrow>
                  let warning =
                        (if list_ex (\<lambda>risky. resolvedPath = risky) RiskyHostPaths
                         then ''mounting '' @ quoted resolvedPath
                              @ '' is risky and may expose sensitive data''
                         else [])
                  in (resolvedPath, warning, None)))))"

section \<open>The declared-state document (package config)\<close>

text \<open>
  A Go map is an association list with the entries in some iteration order; \<^verbatim>\<open>m[k] = v\<close>
  is \<^const>\<open>AList.update\<close>, \<^verbatim>\<open>delete(m, k)\<close> is \<^const>\<open>AList.delete\<close>. Where the source tests
  a map for \<^verbatim>\<open>nil\<close> the field is an option, with \<open>None\<close> for \<^verbatim>\<open>nil\<close>.
\<close>

type_synonym strmap = "(string \<times> string) list"

record User =
  user_Name :: string
  user_Password :: string

record Defaults =
  def_Ports :: "int list"
  def_User :: User

record Snapshot =
  snap_Description :: string
  snap_CreatedAt :: string

record Device =
  dev_Type :: string
  dev_Config :: "strmap option"

record SyncEntry =
  se_Source :: string
  se_Dest :: string

record Container =
  Image :: string
  Ports :: "int list"
  ContainerUser :: User
  Sync :: "SyncEntry list"
  Snapshots :: "(string \<times> Snapshot) list option"
  Devices :: "(string \<times> Device) list option"

record Config =
  Dir :: string
  Project :: string
  ConfigDefaults :: Defaults
  Containers :: "(string \<times> Container) list"

definition ConfigFile :: string where "ConfigFile = ''containers.yaml''"

text \<open>Reading a key of a possibly \<^verbatim>\<open>nil\<close> string map; a missing key reads as the empty string.\<close>

definition mapGet :: "strmap option \<Rightarrow> string \<Rightarrow> string" where
  "mapGet m k = (case m of None \<Rightarrow> [] | Some kv \<Rightarrow> (case map_of kv k of None \<Rightarrow> [] | Some v \<Rightarrow> v))"

definition GetLXCName :: "Config \<Rightarrow> string \<Rightarrow> string" where
  "GetLXCName c shortName = (if Project c = [] then shortName else Project c @ ''-'' @ shortName)"

definition HasContainer :: "Config \<Rightarrow> string \<Rightarrow> bool" where
  "HasContainer c name = (map_of (Containers c) name \<noteq> None)"

definition AddDevice :: "Config \<Rightarrow> string \<Rightarrow> string \<Rightarrow> Device \<Rightarrow> Config" where
  "AddDevice c containerName deviceName device =
     (case map_of (Containers c) containerName of
        None \<Rightarrow> c
      | Some container \<Rightarrow>
          let devices = (case Devices container of None \<Rightarrow> [] | Some ds \<Rightarrow> ds);
              container = container\<lparr>Devices := Some (AList.update deviceName device devices)\<rparr>
          in c\<lparr>Containers := AList.update containerName container (Containers c)\<rparr>)"

definition RemoveDevice :: "Config \<Rightarrow> string \<Rightarrow> string \<Rightarrow> Config" where
  "RemoveDevice c containerName deviceName =
     (case map_of (Containers c) containerName of
        None \<Rightarrow> c
      | Some container \<Rightarrow>
          let container = container\<lparr>Devices := map_option (AList.delete deviceName) (Devices container)\<rparr>
          in c\<lparr>Containers := AList.update containerName container (Containers c)\<rparr>)"

definition GetDevices :: "Config \<Rightarrow> string \<Rightarrow> (string \<times> Device) list option" where
  "GetDevices c containerName =
     (case map_of (Containers c) containerName of
        Some container \<Rightarrow> Devices container
      | None \<Rightarrow> None)"

definition HasDevice :: "Config \<Rightarrow> string \<Rightarrow> string \<Rightarrow> bool" where
  "HasDevice c containerName deviceName =
     (case map_of (Containers c) containerName of
        Some container \<Rightarrow>
          (case Devices container of None \<Rightarrow> False | Some ds \<Rightarrow> map_of ds deviceName \<noteq> None)
      | None \<Rightarrow> False)"

text \<open>The index of the first sync entry with the given source, as the loops over
  \<^verbatim>\<open>container.Sync\<close> find it.\<close>

fun indexOfSource :: "string \<Rightarrow> SyncEntry list \<Rightarrow> nat option" where
  "indexOfSource src [] = None"
| "indexOfSource src (e # es) =
     (if se_Source e = src then Some 0 else map_option Suc (indexOfSource src es))"

definition AddSyncEntry :: "Config \<Rightarrow> string \<Rightarrow> SyncEntry \<Rightarrow> Config" where
  "AddSyncEntry c containerName entry =
     (case map_of (Containers c) containerName of
        None \<Rightarrow> c
      | Some container \<Rightarrow>
          (case indexOfSource (se_Source entry) (Sync container) of
             Some i \<Rightarrow>
               c\<lparr>Containers := AList.update containerName
                    (container\<lparr>Sync := (Sync container)[i := entry]\<rparr>) (Containers c)\<rparr>
           | None \<Rightarrow>
               c\<lparr>Containers := AList.update containerName
                    (container\<lparr>Sync := Sync container @ [entry]\<rparr>) (Containers c)\<rparr>))"

definition RemoveSyncEntry :: "Config \<Rightarrow> string \<Rightarrow> string \<Rightarrow> Config" where
  "RemoveSyncEntry c containerName source =
     (case map_of (Containers c) containerName of
        None \<Rightarrow> c
      | Some container \<Rightarrow>
          (case indexOfSource source (Sync container) of
             Some i \<Rightarrow>
               c\<lparr>Containers := AList.update containerName
                    (container\<lparr>Sync := take i (Sync container) @ drop (Suc i) (Sync container)\<rparr>)
                    (Containers c)\<rparr>
           | None \<Rightarrow> c))"

text \<open>The first device, in iteration order, whose config maps \<^verbatim>\<open>path\<close> to the given path.\<close>

definition FindDeviceByPath :: "Config \<Rightarrow> string \<Rightarrow> string \<Rightarrow> string option" where
  "FindDeviceByPath c containerName path =
     (case map_of (Containers c) containerName of
        None \<Rightarrow> None
      | Some container \<Rightarrow>
          map_option fst
            (find (\<lambda>(name, device). dev_Config device \<noteq> None \<and> mapGet (dev_Config device) ''path'' = path)
                  (case Devices container of None \<Rightarrow> [] | Some ds \<Rightarrow> ds)))"

subsection \<open>Atomic save\<close>

text \<open>
  Paths are strings, and the filesystem maps a path to the file it names.
  \<^verbatim>\<open>filepath.Join\<close> skips leading empty elements, joins the rest with the separator and
  cleans the result; \<^verbatim>\<open>filepath.Dir\<close> cleans what precedes the last separator, the
  separator included. \<^verbatim>\<open>os.CreateTemp\<close> replaces the \<^verbatim>\<open>*\<close> of its pattern by a random
  number in decimal and puts the name behind the directory, with a separator unless the
  directory ends in one; it draws again while the name is taken and fails when it finds
  no unused name, so the number of a call is the one of its last draw.
\<close>

type_synonym path = string

definition filepathJoin :: "string \<Rightarrow> string \<Rightarrow> string" where
  "filepathJoin dir name =
     (if dir \<noteq> [] then Clean (dir @ ''/'' @ name)
      else if name \<noteq> [] then Clean name
      else [])"

definition filepathDir :: "string \<Rightarrow> string" where
  "filepathDir p = Clean (rev (dropWhile (\<lambda>c. c \<noteq> CHR ''/'') (rev p)))"

definition joinPath :: "string \<Rightarrow> string \<Rightarrow> string" where
  "joinPath dir name =
     (if dir \<noteq> [] \<and> last dir = CHR ''/'' then dir @ name else dir @ ''/'' @ name)"

text \<open>The last element of a path: what follows its last separator.\<close>

definition lastElement :: "string \<Rightarrow> string" where
  "lastElement p = rev (takeWhile (\<lambda>c. c \<noteq> CHR ''/'') (rev p))"

text \<open>
  Each primitive of \<^verbatim>\<open>atomicWriteFile\<close> can fail, as the \<open>faults\<close> of the call say: the
  six whose error the source returns, and the deferred \<^verbatim>\<open>os.Remove\<close>, whose error the
  source discards and whose failure leaves the temporary file in place. A failing write
  may leave a prefix of the data in the file. The function returns the error and the
  filesystem operations performed, each with the state it leaves.
\<close>

record regfile =
  content :: string
  mode :: nat

type_synonym fs = "path \<Rightarrow> regfile option"

datatype fsop =
    OpCreateTemp path | OpWrite path | OpSync path | OpClose path
  | OpChmod path nat | OpRename path path | OpRemove path

record faults =
  tmp_random :: nat
  create_err :: error
  write_err :: error
  write_partial :: nat
  sync_err :: error
  close_err :: error
  chmod_err :: error
  rename_err :: error
  remove_err :: error

definition removeTemp :: "faults \<Rightarrow> path \<Rightarrow> fs \<Rightarrow> (fsop \<times> fs) list" where
  "removeTemp f tmpName s =
     [(OpRemove tmpName, (if remove_err f = None then s(tmpName := None) else s))]"

definition atomicWriteFile ::
  "faults \<Rightarrow> fs \<Rightarrow> path \<Rightarrow> string \<Rightarrow> nat \<Rightarrow> error \<times> (fsop \<times> fs) list" where
  "atomicWriteFile f s0 filename data perm =
     (let dir = filepathDir filename;
          dir = (if dir = [] then ''.'' else dir);
          tmpName = joinPath dir (''.containers.yaml.tmp.'' @ itoa (tmp_random f))
      in if s0 tmpName \<noteq> None \<or> create_err f \<noteq> None then
           (Some (''failed to create temp file: ''
                  @ (case create_err f of Some e \<Rightarrow> e | None \<Rightarrow> ''file exists'')), [])
         else
           let s1 = s0(tmpName \<mapsto> \<lparr>content = [], mode = 384\<rparr>);
               h1 = [(OpCreateTemp tmpName, s1)]
           in case write_err f of
             Some e \<Rightarrow>
               let s2 = s1(tmpName \<mapsto> \<lparr>content = take (write_partial f) data, mode = 384\<rparr>)
               in (Some (''failed to write temp file: '' @ e),
                   h1 @ [(OpWrite tmpName, s2), (OpClose tmpName, s2)] @ removeTemp f tmpName s2)
           | None \<Rightarrow>
               let s2 = s1(tmpName \<mapsto> \<lparr>content = data, mode = 384\<rparr>);
                   h2 = h1 @ [(OpWrite tmpName, s2)]
               in case sync_err f of
                 Some e \<Rightarrow>
                   (Some (''failed to sync temp file: '' @ e),
                    h2 @ [(OpSync tmpName, s2), (OpClose tmpName, s2)] @ removeTemp f tmpName s2)
               | None \<Rightarrow>
                   let h3 = h2 @ [(OpSync tmpName, s2)]
                   in case close_err f of
                     Some e \<Rightarrow>
                       (Some (''failed to close temp file: '' @ e),
                        h3 @ [(OpClose tmpName, s2)] @ removeTemp f tmpName s2)
                   | None \<Rightarrow>
                       let h4 = h3 @ [(OpClose tmpName, s2)]
                       in case chmod_err f of
                         Some e \<Rightarrow>
                           (Some (''failed to set permissions: '' @ e),
                            h4 @ [(OpChmod tmpName perm, s2)] @ removeTemp f tmpName s2)
                       | None \<Rightarrow>
                           let s3 = s2(tmpName \<mapsto> \<lparr>content = data, mode = perm\<rparr>);
                               h5 = h4 @ [(OpChmod tmpName perm, s3)]
                           in case rename_err f of
                             Some e \<Rightarrow>
                               (Some (''failed to rename temp file: '' @ e),
                                h5 @ [(OpRename tmpName filename, s3)] @ removeTemp f tmpName s3)
                           | None \<Rightarrow>
                               let s4 = s3(filename := s3 tmpName, tmpName := None)
                               in (None, h5 @ [(OpRename tmpName filename, s4)]))"

text \<open>\<^verbatim>\<open>yaml.Marshal\<close> is a parameter; the file mode \<^verbatim>\<open>0644\<close> is 420.\<close>

definition configPath :: "Config \<Rightarrow> path" where
  "configPath c = (let dir = (if Dir c = [] then ''.'' else Dir c) in filepathJoin dir ConfigFile)"

definition Save ::
  "(Config \<Rightarrow> string + string) \<Rightarrow> faults \<Rightarrow> Config \<Rightarrow> fs \<Rightarrow> error \<times> (fsop \<times> fs) list" where
  "Save marshal f c s0 =
     (case marshal c of
        Inl e \<Rightarrow> (Some e, [])
      | Inr data \<Rightarrow> atomicWriteFile f s0 (configPath c) data 420)"

text \<open>The name \<^verbatim>\<open>os.CreateTemp\<close> gives the temporary file of a save.\<close>

definition tempPath :: "faults \<Rightarrow> Config \<Rightarrow> path" where
  "tempPath f c =
     joinPath (filepathDir (configPath c)) (''.containers.yaml.tmp.'' @ itoa (tmp_random f))"

text \<open>The filesystem a run of operations leaves.\<close>

definition finalState :: "fs \<Rightarrow> (fsop \<times> fs) list \<Rightarrow> fs" where
  "finalState s0 h = (if h = [] then s0 else snd (last h))"

section \<open>Mount operations (package operations)\<close>

text \<open>
  The runtime driver (package \<^verbatim>\<open>lxc\<close>) is a parameter: every call takes the runtime's
  state and returns its result and the state it leaves, whatever they are. The environment
  also holds \<^verbatim>\<open>yaml.Marshal\<close>, the host filesystem of the path validation and the
  faults of the one save an operation performs. The world threaded through an operation
  is the runtime state, the disk and the trace of driver calls and saves issued so far.
\<close>

text \<open>Modelled from the spec: the type \<^verbatim>\<open>lxc.DeviceInfo\<close> of the runtime driver's
  \<^verbatim>\<open>DeviceList\<close>, whose declaration is not among the sources; it has the three fields the
  operations read.\<close>

record DeviceInfo =
  di_Name :: string
  di_Type :: string
  di_Config :: "strmap option"

record 'rt env =
  lxc_Exists :: "'rt \<Rightarrow> string \<Rightarrow> bool \<times> 'rt"
  lxc_IsPrivileged :: "'rt \<Rightarrow> string \<Rightarrow> (string + bool) \<times> 'rt"
  lxc_DeviceList :: "'rt \<Rightarrow> string \<Rightarrow> (string + DeviceInfo list) \<times> 'rt"
  lxc_DeviceAdd :: "'rt \<Rightarrow> string \<Rightarrow> string \<Rightarrow> string \<Rightarrow> strmap option \<Rightarrow> error \<times> 'rt"
  lxc_DeviceRemove :: "'rt \<Rightarrow> string \<Rightarrow> string \<Rightarrow> error \<times> 'rt"
  yaml_Marshal :: "Config \<Rightarrow> string + string"
  host :: hostfs
  save_faults :: faults

datatype event =
    EExists string bool
  | EIsPrivileged string
  | EDeviceList string
  | EDeviceAdd string string string "strmap option" error
  | EDeviceRemove string string error
  | ESave error

record 'rt world =
  runtime :: 'rt
  disk :: fs
  trace :: "event list"

definition Exists :: "'rt env \<Rightarrow> 'rt world \<Rightarrow> string \<Rightarrow> bool \<times> 'rt world" where
  "Exists env w name =
     (let (b, r) = lxc_Exists env (runtime w) name
      in (b, w\<lparr>runtime := r, trace := trace w @ [EExists name b]\<rparr>))"

definition IsPrivileged :: "'rt env \<Rightarrow> 'rt world \<Rightarrow> string \<Rightarrow> (string + bool) \<times> 'rt world" where
  "IsPrivileged env w name =
     (let (b, r) = lxc_IsPrivileged env (runtime w) name
      in (b, w\<lparr>runtime := r, trace := trace w @ [EIsPrivileged name]\<rparr>))"


definition DeviceAdd ::
  "'rt env \<Rightarrow> 'rt world \<Rightarrow> string \<Rightarrow> string \<Rightarrow> string \<Rightarrow> strmap option \<Rightarrow> error \<times> 'rt world" where
  "DeviceAdd env w name device typ cfg =
     (let (e, r) = lxc_DeviceAdd env (runtime w) name device typ cfg
      in (e, w\<lparr>runtime := r, trace := trace w @ [EDeviceAdd name device typ cfg e]\<rparr>))"

definition DeviceRemove :: "'rt env \<Rightarrow> 'rt world \<Rightarrow> string \<Rightarrow> string \<Rightarrow> error \<times> 'rt world" where
  "DeviceRemove env w name device =
     (let (e, r) = lxc_DeviceRemove env (runtime w) name device
      in (e, w\<lparr>runtime := r, trace := trace w @ [EDeviceRemove name device e]\<rparr>))"

text \<open>\<^verbatim>\<open>cfg.Save()\<close> in a world: the disk becomes what the save leaves.\<close>

definition SaveConfig :: "'rt env \<Rightarrow> Config \<Rightarrow> 'rt world \<Rightarrow> error \<times> 'rt world" where
  "SaveConfig env c w =
     (let (e, h) = Save (yaml_Marshal env) (save_faults env) c (disk w)
      in (e, w\<lparr>disk := finalState (disk w) h, trace := trace w @ [ESave e]\<rparr>))"

record MountOpts =
  opt_Name :: string
  ReadWrite :: bool
  Shift :: bool
  AllowRiskyPath :: bool



text \<open>\<^verbatim>\<open>Mount\<close> returns the device name and the error; the configuration it was given and
  the world are returned as it leaves them.\<close>

definition Mount ::
  "'rt env \<Rightarrow> Config \<Rightarrow> 'rt world \<Rightarrow> string \<Rightarrow> string \<Rightarrow> string \<Rightarrow> MountOpts
     \<Rightarrow> (string \<times> error) \<times> Config \<times> 'rt world" where
  "Mount env cfg w containerName sourcePath containerPath opts =
     (if \<not> HasContainer cfg containerName then
        (([], Some (''container '' @ quoted containerName @ '' not found in config'')), cfg, w)
      else
      let lxcName = GetLXCName cfg containerName;
          (exists, w1) = Exists env w lxcName
      in
      if \<not> exists then
        (([], Some (''container '' @ quoted lxcName @ '' does not exist in LXC'')), cfg, w1)
      else
      let (resolvedSource, warning, err) = ValidateSourcePath (host env) sourcePath in
      case err of
        Some e \<Rightarrow> (([], Some (''invalid source path: '' @ e)), cfg, w1)
      | None \<Rightarrow>
      if warning \<noteq> [] \<and> \<not> AllowRiskyPath opts then
        (([], Some (''risky path: '' @ warning)), cfg, w1)
      else
      case ValidateContainerPath containerPath of
        Some e \<Rightarrow> (([], Some (''invalid container path: '' @ e)), cfg, w1)
      | None \<Rightarrow>
      let deviceName = (if opt_Name opts = [] then GenerateMountName resolvedSource
                        else opt_Name opts)
      in
      case ValidateMountName deviceName of
        Some e \<Rightarrow> (([], Some (''invalid device name: '' @ e)), cfg, w1)
      | None \<Rightarrow>
      if HasDevice cfg containerName deviceName then
        (([], Some (''device '' @ quoted deviceName @ '' already exists on container ''
                    @ quoted containerName)), cfg, w1)
      else
      case FindDeviceByPath cfg containerName containerPath of
        Some existingName \<Rightarrow>
          (([], Some (''container path '' @ quoted containerPath
                      @ '' is already mounted by device '' @ quoted existingName)), cfg, w1)
      | None \<Rightarrow>
      let (priv, w2) = IsPrivileged env w1 lxcName in
      case priv of
        Inl e \<Rightarrow> (([], Some (''failed to check container privilege status: '' @ e)), cfg, w2)
      | Inr privileged \<Rightarrow>
      if privileged \<and> ReadWrite opts then
        (([], Some ''read-write mounts are disabled for privileged containers''), cfg, w2)
      else if privileged \<and> HasPrefix resolvedSource ''/home'' then
        (([], Some ''mounting /home to privileged containers is blocked for security reasons''),
         cfg, w2)
      else
      let deviceConfig =
            [(''source'', resolvedSource), (''path'', containerPath)]
            @ (if \<not> ReadWrite opts then [(''readonly'', ''true'')] else [])
            @ (if Shift opts then [(''shift'', ''true'')] else []);
          (addErr, w3) = DeviceAdd env w2 lxcName deviceName ''disk'' (Some deviceConfig)
      in
      case addErr of
        Some e \<Rightarrow> (([], Some (''failed to add device to container: '' @ e)), cfg, w3)
      | None \<Rightarrow>
      let cfg' = AddDevice cfg containerName deviceName
                   \<lparr>dev_Type = ''disk'', dev_Config = Some deviceConfig\<rparr>;
          (saveErr, w4) = SaveConfig env cfg' w3
      in
      case saveErr of
        Some e \<Rightarrow>
          let (_, w5) = DeviceRemove env w4 lxcName deviceName
          in (([], Some (''failed to save config: '' @ e)), cfg', w5)
      | None \<Rightarrow> ((deviceName, None), cfg', w4))"

text \<open>The device name \<^verbatim>\<open>Mount\<close> resolves: the one given in the options, or else the one
  generated from the resolved source path.\<close>

definition mountDeviceName :: "'rt env \<Rightarrow> string \<Rightarrow> MountOpts \<Rightarrow> string" where
  "mountDeviceName env sourcePath opts =
     (if opt_Name opts = [] then GenerateMountName (fst (ValidateSourcePath (host env) sourcePath))
      else opt_Name opts)"

text \<open>The device configuration \<^verbatim>\<open>Mount\<close> builds from the resolved source path, the
  container path and the options.\<close>

definition mountDeviceConfig :: "'rt env \<Rightarrow> string \<Rightarrow> string \<Rightarrow> MountOpts \<Rightarrow> strmap" where
  "mountDeviceConfig env sourcePath containerPath opts =
     [(''source'', fst (ValidateSourcePath (host env) sourcePath)), (''path'', containerPath)]
     @ (if \<not> ReadWrite opts then [(''readonly'', ''true'')] else [])
     @ (if Shift opts then [(''shift'', ''true'')] else [])"












section \<open>The description of GenerateMountName\<close>

text \<open>
  The specification describes \<^verbatim>\<open>GenerateMountName\<close> in words: letters and digits are kept
  and each run of other characters becomes a single hyphen (\<open>collapseRuns\<close>, the flag
  saying that a run is under way); then the trailing hyphen is stripped, the literal
  prefixed and the name truncated (\<open>finishMountName\<close>). \<open>GenerateMountName_claimed\<close>
  follows these words; \<open>GenerateMountName_amended\<close> first drops the run of other
  characters at the start of the base name.
\<close>

fun collapseRuns :: "bool \<Rightarrow> string \<Rightarrow> string" where
  "collapseRuns inRun [] = []"
| "collapseRuns inRun (c # cs) =
     (if isAlnum c then c # collapseRuns False cs
      else if inRun then collapseRuns True cs
      else CHR ''-'' # collapseRuns True cs)"

definition finishMountName :: "string \<Rightarrow> string" where
  "finishMountName collapsed =
     (let name = TrimSuffix collapsed ''-'';
          name = (if name = [] \<or> isDigit (hd name) then ''mount-'' @ name else name)
      in if length name > MaxMountNameLength
         then TrimSuffix (take MaxMountNameLength name) ''-''
         else name)"

definition GenerateMountName_claimed :: "string \<Rightarrow> string" where
  "GenerateMountName_claimed sourcePath = finishMountName (collapseRuns False (Base sourcePath))"

definition GenerateMountName_amended :: "string \<Rightarrow> string" where
  "GenerateMountName_amended sourcePath =
     finishMountName (collapseRuns False (dropWhile (\<lambda>c. \<not> isAlnum c) (Base sourcePath)))"

section \<open>Concrete inputs\<close>

text \<open>A project with one container, a serializer and a disk, for instantiating the
  theorems.\<close>

definition demoContainer :: Container where
  "demoContainer = \<lparr>Image = ''ubuntu:24.04'', Ports = [], ContainerUser = \<lparr>user_Name = [], user_Password = []\<rparr>,
     Sync = [], Snapshots = None, Devices = None\<rparr>"

definition demoConfig :: Config where
  "demoConfig = \<lparr>Dir = ''/proj'', Project = ''demo'',
     ConfigDefaults = \<lparr>def_Ports = [], def_User = \<lparr>user_Name = [], user_Password = []\<rparr>\<rparr>,
     Containers = [(''dev1'', demoContainer)]\<rparr>"

definition demoMarshal :: "Config \<Rightarrow> string + string" where
  "demoMarshal c = Inr (''project: '' @ Project c)"

definition noFaults :: faults where
  "noFaults = \<lparr>tmp_random = 271, create_err = None, write_err = None, write_partial = 0,
     sync_err = None, close_err = None, chmod_err = None, rename_err = None, remove_err = None\<rparr>"

definition oldDisk :: fs where
  "oldDisk = (\<lambda>p. None)(''/proj/containers.yaml'' \<mapsto> \<lparr>content = ''project: old'', mode = 420\<rparr>)"

text \<open>A host filesystem with a few directories and one symbolic link.\<close>

definition demoHost :: hostfs where
  "demoHost =
     \<lparr>os_Abs = (\<lambda>p. OsOk (if HasPrefix p ''/'' then p else ''/proj/'' @ p)),
      os_EvalSymlinks = (\<lambda>p. if p = ''/proj/link'' then OsOk ''/srv/data''
                             else if p \<in> set [''/etc'', ''/tmp'', ''/srv/data'', ''/proj/src'', ''/home/u/.ssh'']
                             then OsOk p else OsNotExist ''no such file or directory''),
      os_StatIsDir = (\<lambda>p. if p \<in> set [''/etc'', ''/tmp'', ''/srv/data'', ''/proj/src'', ''/home/u/.ssh'']
                          then OsOk True else OsNotExist ''no such file or directory'')\<rparr>"


text \<open>
  Modelled from the spec: a runtime driver (package \<^verbatim>\<open>lxc\<close>, not among the sources)
  after the driver contract, kept in memory: containers with their device lists, the names
  of the privileged containers, and a switch that makes \<^verbatim>\<open>DeviceAdd\<close> fail. It only
  instantiates the theorems, which hold for every driver.
\<close>

record memrt =
  mem_devices :: "(string \<times> DeviceInfo list) list"
  mem_privileged :: "string list"
  mem_failAdd :: bool

definition memEnv :: "faults \<Rightarrow> memrt env" where
  "memEnv f =
     \<lparr>lxc_Exists = (\<lambda>r n. (map_of (mem_devices r) n \<noteq> None, r)),
      lxc_IsPrivileged = (\<lambda>r n. (Inr (n \<in> set (mem_privileged r)), r)),
      lxc_DeviceList = (\<lambda>r n. (case map_of (mem_devices r) n of
                                  None \<Rightarrow> Inl ''container not found''
                                | Some ds \<Rightarrow> Inr ds, r)),
      lxc_DeviceAdd = (\<lambda>r n d t c.
         if mem_failAdd r then (Some ''device add failed'', r)
         else (None, r\<lparr>mem_devices :=
                 map (\<lambda>(k, ds). if k = n
                        then (k, ds @ [\<lparr>di_Name = d, di_Type = t, di_Config = c\<rparr>])
                        else (k, ds)) (mem_devices r)\<rparr>)),
      lxc_DeviceRemove = (\<lambda>r n d.
         (None, r\<lparr>mem_devices :=
                 map (\<lambda>(k, ds). if k = n then (k, filter (\<lambda>i. di_Name i \<noteq> d) ds)
                                 else (k, ds)) (mem_devices r)\<rparr>)),
      yaml_Marshal = demoMarshal,
      host = demoHost,
      save_faults = f\<rparr>"

text \<open>The same driver with a \<^verbatim>\<open>DeviceRemove\<close> that fails and removes nothing.\<close>

definition stuckEnv :: "faults \<Rightarrow> memrt env" where
  "stuckEnv f = (memEnv f)\<lparr>lxc_DeviceRemove := (\<lambda>r n d. (Some ''device busy'', r))\<rparr>"

text \<open>A serializer that lists the containers of the document with the names of their
  devices, and the in-memory driver with it.\<close>

definition deviceMarshal :: "Config \<Rightarrow> string + string" where
  "deviceMarshal c =
     Inr (''project: '' @ Project c
          @ concat (map (\<lambda>(n, ct). '' '' @ n @ '':''
                           @ concat (map (\<lambda>(d, dev). '' '' @ d)
                                         (case Devices ct of None \<Rightarrow> [] | Some ds \<Rightarrow> ds)))
                        (Containers c)))"

definition listingEnv :: "faults \<Rightarrow> memrt env" where
  "listingEnv f = (memEnv f)\<lparr>yaml_Marshal := deviceMarshal\<rparr>"

definition repoDevice :: Device where
  "repoDevice = \<lparr>dev_Type = ''disk'',
                 dev_Config = Some [(''source'', ''/host''), (''path'', ''/ws''), (''readonly'', ''true'')]\<rparr>"

definition repoConfig :: Config where
  "repoConfig = demoConfig\<lparr>Containers :=
     [(''dev1'', demoContainer\<lparr>Devices := Some [(''repo'', repoDevice)]\<rparr>)]\<rparr>"


definition demoWorld :: "DeviceInfo list \<Rightarrow> bool \<Rightarrow> memrt world" where
  "demoWorld devices failAdd =
     \<lparr>runtime = \<lparr>mem_devices = [(''demo-dev1'', devices)], mem_privileged = [],
                 mem_failAdd = failAdd\<rparr>,
      disk = oldDisk, trace = []\<rparr>"

definition demoOpts :: "string \<Rightarrow> MountOpts" where
  "demoOpts name = \<lparr>opt_Name = name, ReadWrite = False, Shift = False, AllowRiskyPath = False\<rparr>"

text \<open>The declared device of a name, if any.\<close>

definition declaredDevice :: "Config \<Rightarrow> string \<Rightarrow> string \<Rightarrow> Device option" where
  "declaredDevice cfg containerName name =
     (case GetDevices cfg containerName of None \<Rightarrow> None | Some ds \<Rightarrow> map_of ds name)"

text \<open>Vocabulary for traces.\<close>

definition isSave :: "event \<Rightarrow> bool" where
  "isSave ev = (case ev of ESave e \<Rightarrow> True | _ \<Rightarrow> False)"



definition isMutation :: "event \<Rightarrow> bool" where
  "isMutation ev =
     (case ev of EDeviceAdd l d t c e \<Rightarrow> True | EDeviceRemove l d e \<Rightarrow> True
               | ESave e \<Rightarrow> True | _ \<Rightarrow> False)"

section \<open>Verified properties\<close>

subsection \<open>Name validation\<close>

text \<open>
  Claim C8. Mount names are said to be validated by the rules of container names, the
  reserved words included. The code of \<^verbatim>\<open>ValidateMountName\<close> has no reserved-word check:
  each of the eight reserved names is accepted as a mount name and rejected as a
  container name.
\<close>

theorem ValidateMountName_accepts_reserved:
  "list_all (\<lambda>n. ValidateMountName n = None
                \<and> ValidateContainerName n = Some (quoted n @ '' is a reserved name''))
            reservedNames"
  by code_simp

subsection \<open>Atomic save\<close>

lemma splitOn_nonempty: "splitOn sep xs \<noteq> []"
  by (induction xs) (auto split: list.splits)

lemma splitOn_no_sep: "sep \<notin> set e \<Longrightarrow> splitOn sep e = [e]"
  by (induction e) (auto split: list.splits)

lemma splitOn_append_sep:
  "splitOn sep (xs @ sep # ys) = splitOn sep xs @ splitOn sep ys"
proof (induction xs)
  case Nil
  show ?case by simp
next
  case (Cons x xs)
  obtain f fs where s: "splitOn sep xs = f # fs"
    using splitOn_nonempty[of sep xs] by (cases "splitOn sep xs") auto
  with Cons show ?case by (auto split: list.splits)
qed

lemma cleanElems_last:
  assumes "e \<noteq> []" "e \<noteq> ''.''" "e \<noteq> ''..''"
  shows "\<exists>xs. cleanElems rooted stack (es @ [e]) = xs @ [e]"
proof (induction es arbitrary: stack)
  case Nil
  from assms show ?case by simp
next
  case (Cons a es)
  show ?case using Cons[of stack] Cons[of "a # stack"] Cons[of "tl stack"]
    by (cases stack) auto
qed

lemma joinWith_snoc:
  "joinWith sep (xs @ [e]) = (if xs = [] then e else joinWith sep xs @ sep @ e)"
  by (induction sep xs rule: joinWith.induct) auto

lemma lastElement_append:
  assumes "CHR ''/'' \<notin> set e" "d = [] \<or> last d = CHR ''/''"
  shows "lastElement (d @ e) = e"
proof -
  have all: "\<And>x. x \<in> set (rev e) \<Longrightarrow> x \<noteq> CHR ''/''" using assms(1) by auto
  have d: "takeWhile (\<lambda>c. c \<noteq> CHR ''/'') (rev d) = []"
    using assms(2) by (cases d rule: rev_cases) auto
  have "takeWhile (\<lambda>c. c \<noteq> CHR ''/'') (rev e @ rev d)
          = rev e @ takeWhile (\<lambda>c. c \<noteq> CHR ''/'') (rev d)"
    by (rule takeWhile_append2) (rule all)
  with d show ?thesis by (simp add: lastElement_def)
qed

lemma Clean_lastElement:
  assumes e: "CHR ''/'' \<notin> set e" "e \<noteq> []" "e \<noteq> ''.''" "e \<noteq> ''..''"
  shows "lastElement (Clean (d @ ''/'' @ e)) = e"
proof -
  have sp: "splitOn (CHR ''/'') (d @ ''/'' @ e) = splitOn (CHR ''/'') d @ [e]"
    using splitOn_append_sep[of "CHR ''/''" d e] splitOn_no_sep[OF e(1)] by simp
  obtain xs where ce: "cleanElems (hd (d @ ''/'' @ e) = CHR ''/'') [] (splitOn (CHR ''/'') d @ [e]) = xs @ [e]"
    using cleanElems_last[OF e(2,3,4)] by blast
  let ?r = "if hd (d @ ''/'' @ e) = CHR ''/'' then ''/'' else []"
  let ?pre = "?r @ (if xs = [] then [] else joinWith ''/'' xs @ ''/'')"
  have out: "?r @ joinWith ''/'' (xs @ [e]) = ?pre @ e"
    by (simp add: joinWith_snoc)
  have pre: "?pre = [] \<or> last ?pre = CHR ''/''" by auto
  have ne: "?pre @ e \<noteq> []" using e(2) by simp
  have "Clean (d @ ''/'' @ e) = ?pre @ e"
    using ne out sp ce by (simp add: Clean_def Let_def del: joinWith.simps)
  then show ?thesis using lastElement_append[OF e(1) pre] by simp
qed

lemma Clean_nonempty: "Clean p \<noteq> []"
  by (simp add: Clean_def Let_def)

lemma configPath_last: "lastElement (configPath c) = ConfigFile"
proof -
  have "lastElement (Clean (d @ ''/'' @ ConfigFile)) = ConfigFile" for d
    by (rule Clean_lastElement) (simp_all add: ConfigFile_def)
  then show ?thesis by (simp add: configPath_def filepathJoin_def Let_def)
qed

lemma digitChar_no_sep: "d < 10 \<Longrightarrow> digitChar d \<noteq> CHR ''/''"
proof -
  assume "d < 10"
  then have "d \<in> {0,1,2,3,4,5,6,7,8,9}" by auto
  then show ?thesis by (auto simp: digitChar_def)
qed

lemma itoa_no_sep: "CHR ''/'' \<notin> set (itoa n)"
proof (induction n rule: itoa.induct)
  case (1 n)
  show ?case
  proof (cases "n < 10")
    case True
    then show ?thesis using digitChar_no_sep[of n] by (subst itoa.simps) simp
  next
    case False
    then show ?thesis using 1 digitChar_no_sep[of "n mod 10"]
      by (subst itoa.simps) simp
  qed
qed

lemma joinPath_last:
  "CHR ''/'' \<notin> set name \<Longrightarrow> lastElement (joinPath d name) = name"
proof -
  assume n: "CHR ''/'' \<notin> set name"
  show ?thesis
  proof (cases "d \<noteq> [] \<and> last d = CHR ''/''")
    case True
    then show ?thesis using lastElement_append[OF n, of d] by (simp add: joinPath_def)
  next
    case False
    have "lastElement ((d @ ''/'') @ name) = name"
      by (rule lastElement_append[OF n]) simp
    with False show ?thesis by (auto simp: joinPath_def)
  qed
qed

lemma tempPath_last:
  "lastElement (tempPath f c) = ''.containers.yaml.tmp.'' @ itoa (tmp_random f)"
  unfolding tempPath_def
  by (rule joinPath_last) (use itoa_no_sep in simp)

lemma tempPath_neq: "tempPath f c \<noteq> configPath c"
proof
  assume "tempPath f c = configPath c"
  then have "lastElement (tempPath f c) = lastElement (configPath c)" by simp
  then show False by (simp add: tempPath_last configPath_last ConfigFile_def)
qed

lemma filepathDir_nonempty: "filepathDir p \<noteq> []"
  by (simp add: filepathDir_def Clean_nonempty)

lemma awf_target:
  "atomicWriteFile f s0 (configPath c) data perm = (r, h) \<Longrightarrow> (op, s) \<in> set h \<Longrightarrow>
     s (configPath c) = s0 (configPath c) \<or> s (configPath c) = Some \<lparr>content = data, mode = perm\<rparr>"
  apply (simp only: atomicWriteFile_def Let_def filepathDir_nonempty if_False tempPath_def[symmetric])
  using tempPath_neq[of f c]
  by (auto simp: removeTemp_def split: option.splits if_splits)

lemma awf_fail:
  "atomicWriteFile f s0 (configPath c) data perm = (Some e, h) \<Longrightarrow>
     finalState s0 h (configPath c) = s0 (configPath c)
     \<and> (h \<noteq> [] \<longrightarrow> fst (last h) = OpRemove (tempPath f c))
     \<and> (remove_err f = None \<longrightarrow> finalState s0 h = s0)"
  apply (simp only: atomicWriteFile_def Let_def filepathDir_nonempty if_False tempPath_def[symmetric])
  using tempPath_neq[of f c]
  by (auto simp: finalState_def removeTemp_def split: option.splits if_splits)

lemma awf_success:
  "atomicWriteFile f s0 (configPath c) data perm = (None, h) \<Longrightarrow>
     finalState s0 h (configPath c) = Some \<lparr>content = data, mode = perm\<rparr>
     \<and> finalState s0 h (tempPath f c) = None
     \<and> map fst h = [OpCreateTemp (tempPath f c), OpWrite (tempPath f c), OpSync (tempPath f c),
        OpClose (tempPath f c), OpChmod (tempPath f c) perm, OpRename (tempPath f c) (configPath c)]"
  apply (simp only: atomicWriteFile_def Let_def filepathDir_nonempty if_False tempPath_def[symmetric])
  using tempPath_neq[of f c]
  by (auto simp: finalState_def removeTemp_def split: option.splits if_splits)

lemma awf_faults:
  "atomicWriteFile f s0 (configPath c) data perm = (r, h) \<Longrightarrow>
    (r \<noteq> None) =
    (s0 (tempPath f c) \<noteq> None \<or> create_err f \<noteq> None \<or> write_err f \<noteq> None
     \<or> sync_err f \<noteq> None \<or> close_err f \<noteq> None \<or> chmod_err f \<noteq> None
     \<or> rename_err f \<noteq> None)"
  apply (simp only: atomicWriteFile_def Let_def filepathDir_nonempty if_False tempPath_def[symmetric])
  by (auto split: option.splits if_splits)

text \<open>
  Claim C1, as stated, fails in its last part: the temporary file is removed by a
  deferred \<^verbatim>\<open>os.Remove\<close> whose error is discarded, so a save that fails can leave the
  temporary file behind. Here the write fails after four bytes and the removal fails:
  \<^verbatim>\<open>Save\<close> returns the write error, and the temporary file, absent before the call, is
  left with the four bytes.
\<close>

theorem Save_counterexample:
  "fst (Save demoMarshal (noFaults\<lparr>write_err := Some ''ENOSPC'', write_partial := 4, remove_err := Some ''EIO''\<rparr>) demoConfig oldDisk) = Some ''failed to write temp file: ENOSPC''
   \<and> oldDisk ''/proj/.containers.yaml.tmp.271'' = None
   \<and> finalState oldDisk (snd (Save demoMarshal (noFaults\<lparr>write_err := Some ''ENOSPC'', write_partial := 4, remove_err := Some ''EIO''\<rparr>) demoConfig oldDisk))
        ''/proj/.containers.yaml.tmp.271''
      = Some \<lparr>content = ''proj'', mode = 384\<rparr>"
  by code_simp

text \<open>
  Claim C1, amended. \<^verbatim>\<open>Save\<close> serializes the document and writes it to a temporary
  file in the directory of the target, syncs and closes it, sets the permissions and
  renames it over the target. In every state a run passes through, the target holds its
  previous content or the complete new document. When \<^verbatim>\<open>Save\<close> returns an error the
  target is as it was before the call, the last operation, if any was made, is the removal
  of the temporary file, and if that removal succeeds the whole filesystem is as it was.
  When \<^verbatim>\<open>Save\<close> returns no error the target holds the serialized document with mode
  \<^verbatim>\<open>0644\<close>, the temporary file is gone and the operations were create, write, sync, close,
  chmod and rename, in this order. \<^verbatim>\<open>Save\<close> returns an error exactly when the
  serialization fails, the temporary name is taken, or one of creation, write, sync,
  close, chmod and rename fails. The temporary file is named in the directory of the
  target, whose last element is \<^verbatim>\<open>containers.yaml\<close>, and differs from the target.
\<close>

theorem Save_atomic:
  assumes run: "Save marshal f c s0 = (err, h)"
  shows "(\<forall>(op, s) \<in> set h.
            s (configPath c) = s0 (configPath c)
            \<or> (\<exists>data. marshal c = Inr data
                      \<and> s (configPath c) = Some \<lparr>content = data, mode = 420\<rparr>))
       \<and> (err \<noteq> None \<longrightarrow>
            finalState s0 h (configPath c) = s0 (configPath c)
            \<and> (h \<noteq> [] \<longrightarrow> fst (last h) = OpRemove (tempPath f c))
            \<and> (remove_err f = None \<longrightarrow> finalState s0 h = s0))
       \<and> (err = None \<longrightarrow>
            (\<exists>data. marshal c = Inr data
               \<and> finalState s0 h (configPath c) = Some \<lparr>content = data, mode = 420\<rparr>)
            \<and> finalState s0 h (tempPath f c) = None
            \<and> map fst h =
                [OpCreateTemp (tempPath f c), OpWrite (tempPath f c), OpSync (tempPath f c),
                 OpClose (tempPath f c), OpChmod (tempPath f c) 420,
                 OpRename (tempPath f c) (configPath c)])
       \<and> ((err \<noteq> None) =
            ((\<exists>e. marshal c = Inl e) \<or> s0 (tempPath f c) \<noteq> None
             \<or> create_err f \<noteq> None \<or> write_err f \<noteq> None \<or> sync_err f \<noteq> None
             \<or> close_err f \<noteq> None \<or> chmod_err f \<noteq> None \<or> rename_err f \<noteq> None))
       \<and> tempPath f c
            = joinPath (filepathDir (configPath c))
                (''.containers.yaml.tmp.'' @ itoa (tmp_random f))
       \<and> lastElement (configPath c) = ConfigFile
       \<and> tempPath f c \<noteq> configPath c"
proof (cases "marshal c")
  case (Inl e)
  with run have "err = Some e" "h = []" by (simp_all add: Save_def)
  with Inl show ?thesis
    using tempPath_neq[of f c] configPath_last[of c]
    by (simp add: finalState_def tempPath_def)
next
  case (Inr data)
  with run have awf: "atomicWriteFile f s0 (configPath c) data 420 = (err, h)"
    by (simp add: Save_def)
  have a: "\<forall>(op, s) \<in> set h.
            s (configPath c) = s0 (configPath c)
            \<or> (\<exists>data. marshal c = Inr data
                      \<and> s (configPath c) = Some \<lparr>content = data, mode = 420\<rparr>)"
    using awf_target[OF awf] Inr by blast
  have b: "err \<noteq> None \<longrightarrow>
            finalState s0 h (configPath c) = s0 (configPath c)
            \<and> (h \<noteq> [] \<longrightarrow> fst (last h) = OpRemove (tempPath f c))
            \<and> (remove_err f = None \<longrightarrow> finalState s0 h = s0)"
    using awf_fail awf by blast
  have c: "err = None \<longrightarrow>
            (\<exists>data. marshal c = Inr data
               \<and> finalState s0 h (configPath c) = Some \<lparr>content = data, mode = 420\<rparr>)
            \<and> finalState s0 h (tempPath f c) = None
            \<and> map fst h =
                [OpCreateTemp (tempPath f c), OpWrite (tempPath f c), OpSync (tempPath f c),
                 OpClose (tempPath f c), OpChmod (tempPath f c) 420,
                 OpRename (tempPath f c) (configPath c)]"
    using awf_success awf Inr by blast
  have d: "(err \<noteq> None) =
            ((\<exists>e. marshal c = Inl e) \<or> s0 (tempPath f c) \<noteq> None
             \<or> create_err f \<noteq> None \<or> write_err f \<noteq> None \<or> sync_err f \<noteq> None
             \<or> close_err f \<noteq> None \<or> chmod_err f \<noteq> None \<or> rename_err f \<noteq> None)"
    using awf_faults[OF awf] Inr by simp
  have e: "tempPath f c
            = joinPath (filepathDir (configPath c))
                (''.containers.yaml.tmp.'' @ itoa (tmp_random f))"
    by (simp add: tempPath_def)
  from a b c d e configPath_last[of c] tempPath_neq[of f c] show ?thesis by blast
qed

theorem Save_atomic_witness:
  "fst (Save demoMarshal (noFaults\<lparr>write_err := Some ''ENOSPC'', write_partial := 4\<rparr>) demoConfig oldDisk) = Some ''failed to write temp file: ENOSPC''
   \<and> map fst (snd (Save demoMarshal (noFaults\<lparr>write_err := Some ''ENOSPC'', write_partial := 4\<rparr>) demoConfig oldDisk))
     = [OpCreateTemp ''/proj/.containers.yaml.tmp.271'',
        OpWrite ''/proj/.containers.yaml.tmp.271'',
        OpClose ''/proj/.containers.yaml.tmp.271'',
        OpRemove ''/proj/.containers.yaml.tmp.271'']
   \<and> finalState oldDisk (snd (Save demoMarshal (noFaults\<lparr>write_err := Some ''ENOSPC'', write_partial := 4\<rparr>) demoConfig oldDisk)) = oldDisk
   \<and> configPath demoConfig = ''/proj/containers.yaml''
   \<and> configPath (demoConfig\<lparr>Dir := ''/proj/''\<rparr>) = ''/proj/containers.yaml''
   \<and> fst (Save demoMarshal noFaults demoConfig oldDisk) = None
   \<and> finalState oldDisk (snd (Save demoMarshal noFaults demoConfig oldDisk))
        ''/proj/containers.yaml''
       = Some \<lparr>content = ''project: demo'', mode = 420\<rparr>
   \<and> finalState oldDisk (snd (Save demoMarshal noFaults demoConfig oldDisk))
        ''/proj/.containers.yaml.tmp.271'' = None"
proof -
  have e1: "fst (Save demoMarshal (noFaults\<lparr>write_err := Some ''ENOSPC'', write_partial := 4\<rparr>) demoConfig oldDisk) = Some ''failed to write temp file: ENOSPC''"
    by code_simp
  have o1: "map fst (snd (Save demoMarshal (noFaults\<lparr>write_err := Some ''ENOSPC'', write_partial := 4\<rparr>) demoConfig oldDisk))
     = [OpCreateTemp ''/proj/.containers.yaml.tmp.271'',
        OpWrite ''/proj/.containers.yaml.tmp.271'',
        OpClose ''/proj/.containers.yaml.tmp.271'',
        OpRemove ''/proj/.containers.yaml.tmp.271'']"
    by code_simp
  have r1: "remove_err (noFaults\<lparr>write_err := Some ''ENOSPC'', write_partial := 4\<rparr>) = None" by (simp add: noFaults_def)
  have p: "configPath demoConfig = ''/proj/containers.yaml''
     \<and> configPath (demoConfig\<lparr>Dir := ''/proj/''\<rparr>) = ''/proj/containers.yaml''
     \<and> tempPath noFaults demoConfig = ''/proj/.containers.yaml.tmp.271''"
    by code_simp
  have m: "demoMarshal demoConfig = Inr ''project: demo''" by code_simp
  have e2: "fst (Save demoMarshal noFaults demoConfig oldDisk) = None" by code_simp
  have run1: "Save demoMarshal (noFaults\<lparr>write_err := Some ''ENOSPC'', write_partial := 4\<rparr>) demoConfig oldDisk
      = (fst (Save demoMarshal (noFaults\<lparr>write_err := Some ''ENOSPC'', write_partial := 4\<rparr>) demoConfig oldDisk), snd (Save demoMarshal (noFaults\<lparr>write_err := Some ''ENOSPC'', write_partial := 4\<rparr>) demoConfig oldDisk))"
    by simp
  have run2: "Save demoMarshal noFaults demoConfig oldDisk
      = (fst (Save demoMarshal noFaults demoConfig oldDisk),
         snd (Save demoMarshal noFaults demoConfig oldDisk))"
    by simp
  from Save_atomic [OF run1] e1 r1
  have f1: "finalState oldDisk (snd (Save demoMarshal (noFaults\<lparr>write_err := Some ''ENOSPC'', write_partial := 4\<rparr>) demoConfig oldDisk)) = oldDisk"
    by blast
  from Save_atomic [OF run2] e2
  have "(\<exists>data. demoMarshal demoConfig = Inr data
          \<and> finalState oldDisk (snd (Save demoMarshal noFaults demoConfig oldDisk))
               (configPath demoConfig) = Some \<lparr>content = data, mode = 420\<rparr>)
        \<and> finalState oldDisk (snd (Save demoMarshal noFaults demoConfig oldDisk))
               (tempPath noFaults demoConfig) = None"
    by blast
  with m p have f2: "finalState oldDisk (snd (Save demoMarshal noFaults demoConfig oldDisk))
        ''/proj/containers.yaml'' = Some \<lparr>content = ''project: demo'', mode = 420\<rparr>
     \<and> finalState oldDisk (snd (Save demoMarshal noFaults demoConfig oldDisk))
        ''/proj/.containers.yaml.tmp.271'' = None"
    by auto
  from e1 o1 f1 p e2 f2 show ?thesis by simp
qed

subsection \<open>In-memory mutators\<close>

text \<open>
  Claim C10. For a container name that is not a key of the container map,
  \<^verbatim>\<open>AddDevice\<close>, \<^verbatim>\<open>AddSyncEntry\<close> and \<^verbatim>\<open>RemoveSyncEntry\<close> return the configuration
  unchanged; in particular no container entry is created.
\<close>

theorem mutators_absent:
  assumes "\<not> HasContainer c containerName"
  shows "AddDevice c containerName deviceName device = c
       \<and> AddSyncEntry c containerName entry = c
       \<and> RemoveSyncEntry c containerName source = c"
  using assms by (simp add: HasContainer_def AddDevice_def AddSyncEntry_def RemoveSyncEntry_def)


theorem mutators_absent_witness:
  "\<not> HasContainer demoConfig ''ghost''
   \<and> AddDevice demoConfig ''ghost'' ''data'' \<lparr>dev_Type = ''disk'', dev_Config = None\<rparr> = demoConfig
   \<and> AddSyncEntry demoConfig ''ghost'' \<lparr>se_Source = ''src'', se_Dest = ''/dst''\<rparr> = demoConfig
   \<and> RemoveSyncEntry demoConfig ''ghost'' ''src'' = demoConfig
   \<and> map fst (Containers demoConfig) = [''dev1'']"
proof -
  have h: "\<not> HasContainer demoConfig ''ghost''"
    by (simp add: HasContainer_def demoConfig_def)
  show ?thesis
    using h mutators_absent [OF h, of "''data''" "\<lparr>dev_Type = ''disk'', dev_Config = None\<rparr>"
                                "\<lparr>se_Source = ''src'', se_Dest = ''/dst''\<rparr>" "''src''"]
    by (simp add: demoConfig_def)
qed

subsection \<open>Path validation\<close>

lemma Contains_appendI2: "Contains ys sub \<Longrightarrow> Contains (xs @ ys) sub"
  by (induction xs) auto

lemma HasPrefix_append: "HasPrefix xs sub \<Longrightarrow> HasPrefix (xs @ ys) sub"
  unfolding HasPrefix_def
  by (metis append_eq_conv_conj append.assoc)

lemma Contains_appendI1: "Contains xs sub \<Longrightarrow> Contains (xs @ ys) sub"
proof (induction xs)
  case Nil
  then show ?case by (cases ys) (auto simp: HasPrefix_def)
next
  case (Cons x xs)
  then show ?case using HasPrefix_append[of "x # xs" sub ys] by auto
qed

text \<open>
  Claim C6. \<^verbatim>\<open>ValidateContainerPath\<close> checks the deny-list on the cleaned path, and the
  deny-list is \<^verbatim>\<open>/\<close>, \<^verbatim>\<open>/proc\<close>, \<^verbatim>\<open>/sys\<close>, \<^verbatim>\<open>/dev\<close>: a path that passes the checks
  before it is rejected as "not allowed" exactly when its cleaned form is on the list, and
  that error is returned for no other path. \<^verbatim>\<open>/home/../proc\<close> cleans to \<^verbatim>\<open>/proc\<close> and is
  rejected; \<^verbatim>\<open>/home/../etc/passwd\<close> cleans to \<^verbatim>\<open>/etc/passwd\<close>, which is not on the list,
  and is accepted.
\<close>

theorem ValidateContainerPath_cleans_first:
  "BlockedContainerPaths = [''/'', ''/proc'', ''/sys'', ''/dev'']
   \<and> (path \<noteq> [] \<and> HasPrefix path ''/'' \<and> length path \<le> MaxContainerPathLength
        \<and> \<not> list_ex isPathControlChar path \<and> \<not> Contains (Clean path) ''..''
      \<longrightarrow> ValidateContainerPath path =
            (if Clean path \<in> set BlockedContainerPaths
             then Some (''mounting to '' @ quoted (Clean path) @ '' inside container is not allowed'')
             else None))
   \<and> ((\<exists>b. ValidateContainerPath path
              = Some (''mounting to '' @ quoted b @ '' inside container is not allowed''))
      \<longrightarrow> Clean path \<in> set BlockedContainerPaths)
   \<and> Clean ''/home/../proc'' = ''/proc''
   \<and> ValidateContainerPath ''/home/../proc''
       = Some (''mounting to '' @ quoted ''/proc'' @ '' inside container is not allowed'')
   \<and> Clean ''/home/../etc/passwd'' = ''/etc/passwd''
   \<and> ''/etc/passwd'' \<notin> set BlockedContainerPaths
   \<and> ValidateContainerPath ''/home/../etc/passwd'' = None"
proof -
  have a: "BlockedContainerPaths = [''/'', ''/proc'', ''/sys'', ''/dev'']"
    by (simp add: BlockedContainerPaths_def)
  have b: "path \<noteq> [] \<and> HasPrefix path ''/'' \<and> length path \<le> MaxContainerPathLength
        \<and> \<not> list_ex isPathControlChar path \<and> \<not> Contains (Clean path) ''..''
      \<longrightarrow> ValidateContainerPath path =
            (if Clean path \<in> set BlockedContainerPaths
             then Some (''mounting to '' @ quoted (Clean path) @ '' inside container is not allowed'')
             else None)"
    by (auto simp: ValidateContainerPath_def Let_def BlockedContainerPaths_def)
  have c: "(\<exists>b. ValidateContainerPath path
              = Some (''mounting to '' @ quoted b @ '' inside container is not allowed''))
      \<longrightarrow> Clean path \<in> set BlockedContainerPaths"
    by (auto simp: ValidateContainerPath_def Let_def BlockedContainerPaths_def quoted_def
          split: if_splits option.splits)
  have d: "Clean ''/home/../proc'' = ''/proc''" by code_simp
  have e: "ValidateContainerPath ''/home/../proc''
       = Some (''mounting to '' @ quoted ''/proc'' @ '' inside container is not allowed'')"
    by code_simp
  have f: "Clean ''/home/../etc/passwd'' = ''/etc/passwd''" by code_simp
  have g: "''/etc/passwd'' \<notin> set BlockedContainerPaths" by (simp add: BlockedContainerPaths_def)
  have h: "ValidateContainerPath ''/home/../etc/passwd'' = None" by code_simp
  from a b c d e f g h show ?thesis by blast
qed

theorem ValidateContainerPath_cleans_first_witness:
  "''/home/../proc'' \<noteq> [] \<and> HasPrefix ''/home/../proc'' ''/''
   \<and> length ''/home/../proc'' \<le> MaxContainerPathLength
   \<and> \<not> list_ex isPathControlChar ''/home/../proc'' \<and> \<not> Contains (Clean ''/home/../proc'') ''..''
   \<and> Clean ''/home/../proc'' \<in> set BlockedContainerPaths
   \<and> ValidateContainerPath ''/home/../proc''
       = Some (''mounting to '' @ quoted (Clean ''/home/../proc'') @ '' inside container is not allowed'')"
proof -
  have pre: "''/home/../proc'' \<noteq> [] \<and> HasPrefix ''/home/../proc'' ''/''
   \<and> length ''/home/../proc'' \<le> MaxContainerPathLength
   \<and> \<not> list_ex isPathControlChar ''/home/../proc'' \<and> \<not> Contains (Clean ''/home/../proc'') ''..''"
    by code_simp
  have mem: "Clean ''/home/../proc'' \<in> set BlockedContainerPaths" by code_simp
  from pre mem ValidateContainerPath_cleans_first [of "''/home/../proc''"]
  show ?thesis by simp
qed

lemma risky_not_blocked:
  "p \<in> set RiskyHostPaths \<Longrightarrow> p \<notin> set BlockedHostPaths \<and> find (\<lambda>pattern. HasSuffix p pattern) BlockedHostPatterns = None"
  by (auto simp: RiskyHostPaths_def BlockedHostPaths_def BlockedHostPatterns_def HasSuffix_def)

lemma list_ex_eq: "list_ex (\<lambda>b. p = b) xs = (p \<in> set xs)"
  by (induction xs) auto

lemma ValidateSourcePath_blocked:
  assumes "source \<noteq> []" "os_Abs h source = OsOk a" "os_EvalSymlinks h a = OsOk r"
    "os_StatIsDir h (Clean r) = OsOk True"
    "Clean r \<in> set BlockedHostPaths \<or> (\<exists>pat \<in> set BlockedHostPatterns. HasSuffix (Clean r) pat)"
  shows "\<exists>e. ValidateSourcePath h source = ([], [], Some e) \<and> Contains e ''not allowed''"
proof (cases "Clean r \<in> set BlockedHostPaths")
  case True
  have "Contains (''mounting '' @ quoted (Clean r) @ '' is not allowed for security reasons'') ''not allowed''"
    by (intro Contains_appendI2) (simp add: HasPrefix_def)
  with True assms show ?thesis
    by (simp add: ValidateSourcePath_def Let_def list_ex_eq)
next
  case False
  with assms obtain pat where pat: "pat \<in> set BlockedHostPatterns" "HasSuffix (Clean r) pat" by blast
  then obtain q where q: "find (\<lambda>pattern. HasSuffix (Clean r) pattern) BlockedHostPatterns = Some q"
    by (cases "find (\<lambda>pattern. HasSuffix (Clean r) pattern) BlockedHostPatterns")
       (auto simp: find_None_iff)
  have "Contains (''mounting paths matching '' @ quoted q @ '' is not allowed for security reasons'') ''not allowed''"
    by (intro Contains_appendI2) (simp add: HasPrefix_def)
  with False q assms show ?thesis
    by (simp add: ValidateSourcePath_def Let_def list_ex_eq)
qed

lemma ValidateSourcePath_risky:
  assumes "source \<noteq> []" "os_Abs h source = OsOk a" "os_EvalSymlinks h a = OsOk r"
    "os_StatIsDir h (Clean r) = OsOk True"
    "Clean r \<in> set RiskyHostPaths"
  shows "\<exists>w. ValidateSourcePath h source = (Clean r, w, None) \<and> w \<noteq> [] \<and> Contains w ''risky''"
proof -
  have "Contains (''mounting '' @ quoted (Clean r) @ '' is risky and may expose sensitive data'') ''risky''"
    by (intro Contains_appendI2) (simp add: HasPrefix_def)
  with assms risky_not_blocked[of "Clean r"] show ?thesis
    by (simp add: ValidateSourcePath_def Let_def list_ex_eq)
qed

lemma ValidateSourcePath_exclusive:
  "ValidateSourcePath h source = (p, w, e) \<Longrightarrow> w = [] \<or> e = None"
  by (auto simp: ValidateSourcePath_def Let_def split: if_splits osresult.splits option.splits)


text \<open>
  Claim C7. Once the source has been resolved to an existing directory,
  \<^verbatim>\<open>ValidateSourcePath\<close> fails with an error containing "not allowed" when the resolved
  path is on the deny-list or ends with a deny-listed suffix, and succeeds with a non-empty
  warning containing "risky" when the resolved path is one of the risky paths; in every
  call the warning and the error are not both present. \<^verbatim>\<open>/etc\<close> is on the deny-list,
  \<^verbatim>\<open>/.ssh\<close> among the suffixes and \<^verbatim>\<open>/tmp\<close> among the risky paths.
\<close>

theorem ValidateSourcePath_deny_risky:
  "(source \<noteq> [] \<and> os_Abs h source = OsOk a \<and> os_EvalSymlinks h a = OsOk r
      \<and> os_StatIsDir h (Clean r) = OsOk True
    \<longrightarrow> ((Clean r \<in> set BlockedHostPaths
           \<or> (\<exists>pat \<in> set BlockedHostPatterns. HasSuffix (Clean r) pat))
          \<longrightarrow> (\<exists>e. ValidateSourcePath h source = ([], [], Some e) \<and> Contains e ''not allowed''))
        \<and> (Clean r \<in> set RiskyHostPaths
          \<longrightarrow> (\<exists>w. ValidateSourcePath h source = (Clean r, w, None)
                    \<and> w \<noteq> [] \<and> Contains w ''risky'')))
   \<and> (\<forall>p w e. ValidateSourcePath h source = (p, w, e) \<longrightarrow> \<not> (w \<noteq> [] \<and> e \<noteq> None))
   \<and> ''/etc'' \<in> set BlockedHostPaths \<and> ''/.ssh'' \<in> set BlockedHostPatterns
   \<and> ''/tmp'' \<in> set RiskyHostPaths"
proof -
  have lists: "''/etc'' \<in> set BlockedHostPaths \<and> ''/.ssh'' \<in> set BlockedHostPatterns
      \<and> ''/tmp'' \<in> set RiskyHostPaths"
    by (simp add: BlockedHostPaths_def BlockedHostPatterns_def RiskyHostPaths_def)
  have excl: "\<forall>p w e. ValidateSourcePath h source = (p, w, e) \<longrightarrow> \<not> (w \<noteq> [] \<and> e \<noteq> None)"
    using ValidateSourcePath_exclusive by blast
  from lists excl ValidateSourcePath_blocked [of source h a r]
       ValidateSourcePath_risky [of source h a r]
  show ?thesis by blast
qed

theorem ValidateSourcePath_deny_risky_witness:
  "os_Abs demoHost ''/etc'' = OsOk ''/etc'' \<and> os_EvalSymlinks demoHost ''/etc'' = OsOk ''/etc''
   \<and> os_StatIsDir demoHost (Clean ''/etc'') = OsOk True \<and> Clean ''/etc'' \<in> set BlockedHostPaths
   \<and> (\<exists>e. ValidateSourcePath demoHost ''/etc'' = ([], [], Some e) \<and> Contains e ''not allowed'')
   \<and> os_Abs demoHost ''/tmp'' = OsOk ''/tmp'' \<and> os_EvalSymlinks demoHost ''/tmp'' = OsOk ''/tmp''
   \<and> os_StatIsDir demoHost (Clean ''/tmp'') = OsOk True \<and> Clean ''/tmp'' \<in> set RiskyHostPaths
   \<and> (\<exists>w. ValidateSourcePath demoHost ''/tmp'' = (''/tmp'', w, None)
           \<and> w \<noteq> [] \<and> Contains w ''risky'')
   \<and> os_Abs demoHost ''link'' = OsOk ''/proj/link''
   \<and> os_EvalSymlinks demoHost ''/proj/link'' = OsOk ''/srv/data''
   \<and> ValidateSourcePath demoHost ''link'' = (''/srv/data'', [], None)"
proof -
  have c1: "Clean ''/etc'' = ''/etc''" by code_simp
  have c2: "Clean ''/tmp'' = ''/tmp''" by code_simp
  have e1: "os_Abs demoHost ''/etc'' = OsOk ''/etc'' \<and> os_EvalSymlinks demoHost ''/etc'' = OsOk ''/etc''
     \<and> os_StatIsDir demoHost (Clean ''/etc'') = OsOk True \<and> Clean ''/etc'' \<in> set BlockedHostPaths"
    by (simp add: c1 demoHost_def HasPrefix_def BlockedHostPaths_def)
  have e2: "os_Abs demoHost ''/tmp'' = OsOk ''/tmp'' \<and> os_EvalSymlinks demoHost ''/tmp'' = OsOk ''/tmp''
     \<and> os_StatIsDir demoHost (Clean ''/tmp'') = OsOk True \<and> Clean ''/tmp'' \<in> set RiskyHostPaths"
    by (simp add: c2 demoHost_def HasPrefix_def RiskyHostPaths_def)
  have e3: "os_Abs demoHost ''link'' = OsOk ''/proj/link''
   \<and> os_EvalSymlinks demoHost ''/proj/link'' = OsOk ''/srv/data''"
    by (simp add: demoHost_def HasPrefix_def)
  have e4: "ValidateSourcePath demoHost ''link'' = (''/srv/data'', [], None)"
    by code_simp
  from e1 e2 e3 e4 c2
       ValidateSourcePath_deny_risky [of "''/etc''" demoHost "''/etc''" "''/etc''"]
       ValidateSourcePath_deny_risky [of "''/tmp''" demoHost "''/tmp''" "''/tmp''"]
  show ?thesis by simp
qed

subsection \<open>Generated mount names\<close>

lemma generateLoop_collapse:
  "generateLoop cs result prev =
     result @ (if result = [] then collapseRuns False (dropWhile (\<lambda>c. \<not> isAlnum c) cs)
               else collapseRuns prev cs)"
  by (induction cs arbitrary: result prev) auto

lemma generateLoop_alnum: "list_all isAlnum cs \<Longrightarrow> generateLoop cs result prev = result @ cs"
  by (induction cs arbitrary: result prev) auto

lemma HasSuffix_hyphen: "HasSuffix s ''-'' = (s \<noteq> [] \<and> last s = CHR ''-'')"
proof (cases s rule: rev_cases)
  case Nil
  then show ?thesis by (simp add: HasSuffix_def)
next
  case (snoc xs x)
  then show ?thesis by (auto simp: HasSuffix_def)
qed

lemma not_alnum_hyphen: "\<not> isAlnum (CHR ''-'')"
  by (simp add: isAlnum_def isLower_def isUpper_def isDigit_def)

lemma last_alnum_no_hyphen:
  "list_all isAlnum s \<Longrightarrow> \<not> HasSuffix s ''-''"
proof (cases s rule: rev_cases)
  case Nil
  then show ?thesis by (simp add: HasSuffix_def)
next
  case (snoc xs x)
  assume "list_all isAlnum s"
  with snoc have "isAlnum x" by simp
  with not_alnum_hyphen have "x \<noteq> CHR ''-''" by auto
  with snoc show ?thesis by (simp add: HasSuffix_hyphen)
qed

lemma list_all_take: "list_all P xs \<Longrightarrow> list_all P (take n xs)"
  by (auto simp: list_all_iff dest: in_set_takeD)

lemma mount_prefix_take:
  assumes "list_all isAlnum b" "length b \<ge> 44"
  shows "\<not> HasSuffix (take 50 (''mount-'' @ b)) ''-''"
proof -
  have t: "take 50 (''mount-'' @ b) = ''mount-'' @ take 44 b" by simp
  have ne: "take 44 b \<noteq> []" using assms by auto
  have "list_all isAlnum (take 44 b)" using assms by (simp add: list_all_take)
  then have "\<not> HasSuffix (take 44 b) ''-''" by (rule last_alnum_no_hyphen)
  with ne have "last (take 44 b) \<noteq> CHR ''-''" by (simp add: HasSuffix_hyphen)
  with ne have "last (''mount-'' @ take 44 b) \<noteq> CHR ''-''" by simp
  with t show ?thesis by (simp add: HasSuffix_hyphen del: take_append)
qed

lemma GenerateMountName_long:
  assumes b: "Base p = b" and len: "length b = 100" and al: "list_all isAlnum b"
  shows "length (GenerateMountName p) = MaxMountNameLength \<and> \<not> HasSuffix (GenerateMountName p) ''-''"
proof -
  have l: "generateLoop b [] False = b" using al by (simp add: generateLoop_alnum)
  have ts: "TrimSuffix b ''-'' = b" using last_alnum_no_hyphen[OF al] by (simp add: TrimSuffix_def)
  have ne: "b \<noteq> []" using len by auto
  show ?thesis
  proof (cases "isDigit (hd b)")
    case True
    have ns: "\<not> HasSuffix (take 50 (''mount-'' @ b)) ''-''"
      using mount_prefix_take[OF al] len by simp
    have g: "GenerateMountName p = take 50 (''mount-'' @ b)"
      using b l ts True len ns
      by (simp add: GenerateMountName_def Let_def MaxMountNameLength_def TrimSuffix_def del: take_append)
    show ?thesis using g ns len by (simp add: MaxMountNameLength_def del: take_append) 
  next
    case False
    have "list_all isAlnum (take 50 b)" using al by (simp add: list_all_take)
    then have ns: "\<not> HasSuffix (take 50 b) ''-''" by (rule last_alnum_no_hyphen)
    have g: "GenerateMountName p = take 50 b"
      using b l ts False len ns ne
      by (simp add: GenerateMountName_def Let_def MaxMountNameLength_def TrimSuffix_def)
    show ?thesis using g ns len by (simp add: MaxMountNameLength_def)
  qed
qed

text \<open>
  Claim C9, as stated, fails: a run of other characters at the start of the base name is
  dropped by the loop (no hyphen is written while the result is empty), not collapsed to
  a hyphen, so \<^verbatim>\<open>/home/user/.config\<close> gives \<^verbatim>\<open>config\<close> where the description gives
  \<^verbatim>\<open>-config\<close>; and a base name of 100 characters none of which is a letter or digit
  gives \<^verbatim>\<open>mount-\<close>, six characters ending in a hyphen.
\<close>

theorem GenerateMountName_counterexample:
  "GenerateMountName ''/home/user/.config'' = ''config''
   \<and> GenerateMountName_claimed ''/home/user/.config'' = ''-config''
   \<and> GenerateMountName ''/home/user/.config'' \<noteq> GenerateMountName_claimed ''/home/user/.config''
   \<and> length (Base (''/home/'' @ replicate 100 (CHR ''_''))) = 100
   \<and> GenerateMountName (''/home/'' @ replicate 100 (CHR ''_'')) = ''mount-''"
  by code_simp

text \<open>
  Claim C9, amended. \<^verbatim>\<open>GenerateMountName\<close> keeps the letters and digits of the last path
  segment, drops a run of other characters at its start and collapses each later run to a
  single hyphen, strips a trailing hyphen, prefixes \<^verbatim>\<open>mount-\<close> when the result is empty
  or starts with a digit, and truncates to the maximal mount-name length, stripping a
  trailing hyphen the truncation leaves. \<^verbatim>\<open>/home/user/my_project\<close> gives
  \<^verbatim>\<open>my-project\<close>, \<^verbatim>\<open>/data/123project\<close> gives \<^verbatim>\<open>mount-123project\<close>, and a base name of
  100 letters and digits gives a name of exactly the maximal length with no trailing
  hyphen.
\<close>

theorem GenerateMountName_amended_refines:
  "GenerateMountName p = GenerateMountName_amended p
   \<and> GenerateMountName ''/home/user/my_project'' = ''my-project''
   \<and> GenerateMountName ''/data/123project'' = ''mount-123project''
   \<and> (Base p = b \<and> length b = 100 \<and> list_all isAlnum b
        \<longrightarrow> length (GenerateMountName p) = MaxMountNameLength
            \<and> \<not> HasSuffix (GenerateMountName p) ''-'')"
proof -
  have a: "GenerateMountName p = GenerateMountName_amended p"
    by (simp add: GenerateMountName_def GenerateMountName_amended_def finishMountName_def
          generateLoop_collapse Let_def)
  have b: "GenerateMountName ''/home/user/my_project'' = ''my-project''" by code_simp
  have c: "GenerateMountName ''/data/123project'' = ''mount-123project''" by code_simp
  from a b c GenerateMountName_long [of p b] show ?thesis by blast
qed

theorem GenerateMountName_amended_refines_witness:
  "Base (''/home/'' @ replicate 100 (CHR ''a'')) = replicate 100 (CHR ''a'')
   \<and> length (replicate 100 (CHR ''a'')) = 100
   \<and> list_all isAlnum (replicate 100 (CHR ''a''))
   \<and> length (GenerateMountName (''/home/'' @ replicate 100 (CHR ''a''))) = 50
   \<and> \<not> HasSuffix (GenerateMountName (''/home/'' @ replicate 100 (CHR ''a''))) ''-''"
proof -
  have h: "Base (''/home/'' @ replicate 100 (CHR ''a'')) = replicate 100 (CHR ''a'')
   \<and> length (replicate 100 (CHR ''a'')) = 100
   \<and> list_all isAlnum (replicate 100 (CHR ''a''))"
    by code_simp
  from h GenerateMountName_amended_refines
          [of "''/home/'' @ replicate 100 (CHR ''a'')" "replicate 100 (CHR ''a'')"]
  have "length (GenerateMountName (''/home/'' @ replicate 100 (CHR ''a''))) = MaxMountNameLength
      \<and> \<not> HasSuffix (GenerateMountName (''/home/'' @ replicate 100 (CHR ''a''))) ''-''"
    by blast
  with h show ?thesis by (simp only: MaxMountNameLength_def simp_thms)
qed

subsection \<open>Mount\<close>

lemma Save_fail:
  "Save marshal f c s0 = (Some e, h) \<Longrightarrow>
     finalState s0 h (configPath c) = s0 (configPath c)
     \<and> (remove_err f = None \<longrightarrow> finalState s0 h = s0)"
  by (auto simp: Save_def finalState_def split: sum.splits dest: awf_fail)

lemma Save_ok:
  "Save marshal f c s0 = (None, h) \<Longrightarrow>
     \<exists>data. marshal c = Inr data
       \<and> finalState s0 h (configPath c) = Some \<lparr>content = data, mode = 420\<rparr>"
  by (auto simp: Save_def split: sum.splits dest: awf_success)

lemma SaveConfig_shape:
  "SaveConfig env c w = (e, w') \<Longrightarrow>
     runtime w' = runtime w \<and> trace w' = trace w @ [ESave e]"
  by (auto simp: SaveConfig_def split: prod.splits)

lemma SaveConfig_disk:
  "SaveConfig env c w = (e, w') \<Longrightarrow>
     (e \<noteq> None \<longrightarrow> disk w' (configPath c) = disk w (configPath c)
        \<and> (remove_err (save_faults env) = None \<longrightarrow> disk w' = disk w))
     \<and> (e = None \<longrightarrow> (\<exists>data. yaml_Marshal env c = Inr data
            \<and> disk w' (configPath c) = Some \<lparr>content = data, mode = 420\<rparr>))"
proof (cases "Save (yaml_Marshal env) (save_faults env) c (disk w)")
  case (Pair e0 h)
  assume run: "SaveConfig env c w = (e, w')"
  from run Pair have e: "e0 = e" and d: "disk w' = finalState (disk w) h"
    by (auto simp: SaveConfig_def)
  show ?thesis
  proof (cases e)
    case None
    with Pair e Save_ok[of "yaml_Marshal env" "save_faults env" c "disk w" h] d
    show ?thesis by auto
  next
    case (Some x)
    with Pair e Save_fail[of "yaml_Marshal env" "save_faults env" c "disk w" x h] d
    show ?thesis by auto
  qed
qed

lemma Exists_shape:
  "Exists env w n = (b, w') \<Longrightarrow> disk w' = disk w \<and> trace w' = trace w @ [EExists n b]
     \<and> lxc_Exists env (runtime w) n = (b, runtime w')"
  by (auto simp: Exists_def split: prod.splits)

lemma IsPrivileged_shape:
  "IsPrivileged env w n = (b, w') \<Longrightarrow> disk w' = disk w \<and> trace w' = trace w @ [EIsPrivileged n]"
  by (auto simp: IsPrivileged_def split: prod.splits)

lemma IsPrivileged_run:
  "IsPrivileged env w n = (b, w') \<Longrightarrow> lxc_IsPrivileged env (runtime w) n = (b, runtime w')"
  by (auto simp: IsPrivileged_def split: prod.splits)


lemma DeviceAdd_shape:
  "DeviceAdd env w n d t c = (e, w') \<Longrightarrow>
     disk w' = disk w \<and> trace w' = trace w @ [EDeviceAdd n d t c e]"
  by (auto simp: DeviceAdd_def split: prod.splits)

lemma DeviceAdd_run:
  "DeviceAdd env w n d t c = (e, w') \<Longrightarrow> lxc_DeviceAdd env (runtime w) n d t c = (e, runtime w')"
  by (auto simp: DeviceAdd_def split: prod.splits)

lemma DeviceRemove_shape:
  "DeviceRemove env w n d = (e, w') \<Longrightarrow>
     disk w' = disk w \<and> trace w' = trace w @ [EDeviceRemove n d e]"
  by (auto simp: DeviceRemove_def split: prod.splits)

lemma DeviceRemove_run:
  "DeviceRemove env w n d = (e, w') \<Longrightarrow> lxc_DeviceRemove env (runtime w) n d = (e, runtime w')"
  by (auto simp: DeviceRemove_def split: prod.splits)

lemma configPath_AddDevice: "configPath (AddDevice cfg c d dev) = configPath cfg"
  by (simp add: AddDevice_def configPath_def Let_def split: option.splits)

lemma declaredDevice_AddDevice:
  "HasContainer cfg c \<Longrightarrow> declaredDevice (AddDevice cfg c d dev) c d = Some dev"
  by (auto simp: HasContainer_def AddDevice_def declaredDevice_def GetDevices_def Let_def
        update_conv' split: option.splits)

lemma HasDevice_AddDevice:
  "HasContainer cfg c \<Longrightarrow> HasDevice (AddDevice cfg c d dev) c d"
  by (auto simp: HasContainer_def AddDevice_def HasDevice_def Let_def
        update_conv' split: option.splits)

lemma Mount_unfold:
  assumes E: "Exists env w (GetLXCName cfg c) = (ex, w1)"
    and V: "ValidateSourcePath (host env) src = (rs, wn, er)"
    and P: "IsPrivileged env w1 (GetLXCName cfg c) = (pr, w2)"
    and d: "d = (if opt_Name opts = [] then GenerateMountName rs else opt_Name opts)"
    and dc: "dc = [(''source'', rs), (''path'', cpath)]
              @ (if \<not> ReadWrite opts then [(''readonly'', ''true'')] else [])
              @ (if Shift opts then [(''shift'', ''true'')] else [])"
    and A: "DeviceAdd env w2 (GetLXCName cfg c) d ''disk'' (Some dc) = (ae, w3)"
    and S: "SaveConfig env (AddDevice cfg c d \<lparr>dev_Type = ''disk'', dev_Config = Some dc\<rparr>) w3 = (se, w4)"
    and R: "DeviceRemove env w4 (GetLXCName cfg c) d = (re, w5)"
  shows "Mount env cfg w c src cpath opts =
     (if \<not> HasContainer cfg c then
        (([], Some (''container '' @ quoted c @ '' not found in config'')), cfg, w)
      else if \<not> ex then
        (([], Some (''container '' @ quoted (GetLXCName cfg c) @ '' does not exist in LXC'')), cfg, w1)
      else case er of
        Some e \<Rightarrow> (([], Some (''invalid source path: '' @ e)), cfg, w1)
      | None \<Rightarrow>
      if wn \<noteq> [] \<and> \<not> AllowRiskyPath opts then
        (([], Some (''risky path: '' @ wn)), cfg, w1)
      else
      case ValidateContainerPath cpath of
        Some e \<Rightarrow> (([], Some (''invalid container path: '' @ e)), cfg, w1)
      | None \<Rightarrow>
      case ValidateMountName d of
        Some e \<Rightarrow> (([], Some (''invalid device name: '' @ e)), cfg, w1)
      | None \<Rightarrow>
      if HasDevice cfg c d then
        (([], Some (''device '' @ quoted d @ '' already exists on container '' @ quoted c)), cfg, w1)
      else
      case FindDeviceByPath cfg c cpath of
        Some existingName \<Rightarrow>
          (([], Some (''container path '' @ quoted cpath
                      @ '' is already mounted by device '' @ quoted existingName)), cfg, w1)
      | None \<Rightarrow>
      case pr of
        Inl e \<Rightarrow> (([], Some (''failed to check container privilege status: '' @ e)), cfg, w2)
      | Inr privileged \<Rightarrow>
      if privileged \<and> ReadWrite opts then
        (([], Some ''read-write mounts are disabled for privileged containers''), cfg, w2)
      else if privileged \<and> HasPrefix rs ''/home'' then
        (([], Some ''mounting /home to privileged containers is blocked for security reasons''),
         cfg, w2)
      else
      case ae of
        Some e \<Rightarrow> (([], Some (''failed to add device to container: '' @ e)), cfg, w3)
      | None \<Rightarrow>
      case se of
        Some e \<Rightarrow> (([], Some (''failed to save config: '' @ e)),
                    AddDevice cfg c d \<lparr>dev_Type = ''disk'', dev_Config = Some dc\<rparr>, w5)
      | None \<Rightarrow> ((d, None), AddDevice cfg c d \<lparr>dev_Type = ''disk'', dev_Config = Some dc\<rparr>, w4))"
proof (cases "HasContainer cfg c")
  case b0: False
  from b0 E V P A S R show ?thesis
    unfolding d dc by (simp add: Mount_def Let_def  split del: if_split)
next
  case g0: True
  show ?thesis
  proof (cases ex)
    case b1: False
    from g0 b1 E V P A S R show ?thesis
      unfolding d dc by (simp add: Mount_def Let_def  split del: if_split)
  next
    case g1: True
    show ?thesis
    proof (cases er)
      case b2: (Some e)
      from g0 g1 b2 E V P A S R show ?thesis
        unfolding d dc by (simp add: Mount_def Let_def  split del: if_split)
    next
      case g2: None
      show ?thesis
      proof (cases "wn \<noteq> [] \<and> \<not> AllowRiskyPath opts")
        case b3: True
        from g0 g1 g2 b3 E V P A S R show ?thesis
          unfolding d dc by (simp add: Mount_def Let_def  split del: if_split)
      next
        case g3: False
        show ?thesis
        proof (cases "ValidateContainerPath cpath")
          case b4: (Some e)
          from g0 g1 g2 b4 E V P A S R show ?thesis
            unfolding d dc by (simp add: Mount_def Let_def if_not_P[OF g3] split del: if_split)
        next
          case g4: None
          show ?thesis
          proof (cases "ValidateMountName d")
            case b5: (Some e)
            from g0 g1 g2 g4 b5 E V P A S R show ?thesis
              unfolding d dc by (simp add: Mount_def Let_def if_not_P[OF g3] split del: if_split)
          next
            case g5: None
            show ?thesis
            proof (cases "HasDevice cfg c d")
              case b6: True
              from g0 g1 g2 g4 g5 b6 E V P A S R show ?thesis
                unfolding d dc by (simp add: Mount_def Let_def if_not_P[OF g3] split del: if_split)
            next
              case g6: False
              show ?thesis
              proof (cases "FindDeviceByPath cfg c cpath")
                case b7: (Some n)
                from g0 g1 g2 g4 g5 g6 b7 E V P A S R show ?thesis
                  unfolding d dc by (simp add: Mount_def Let_def if_not_P[OF g3] split del: if_split)
              next
                case g7: None
                show ?thesis
                proof (cases pr)
                  case b8: (Inl e)
                  from g0 g1 g2 g4 g5 g6 g7 b8 E V P A S R show ?thesis
                    unfolding d dc by (simp add: Mount_def Let_def if_not_P[OF g3] split del: if_split)
                next
                  case g8: (Inr privileged)
                  show ?thesis
                  proof (cases "privileged \<and> ReadWrite opts")
                    case b9: True
                    from g0 g1 g2 g4 g5 g6 g7 g8 b9 E V P A S R show ?thesis
                      unfolding d dc by (simp add: Mount_def Let_def if_not_P[OF g3])
                  next
                    case g9: False
                    show ?thesis
                    proof (cases "privileged \<and> HasPrefix rs ''/home''")
                      case b10: True
                      from g0 g1 g2 g4 g5 g6 g7 g8 g9 b10 E V P A S R show ?thesis
                        unfolding d dc by (simp add: Mount_def Let_def if_not_P[OF g3])
                    next
                      case g10: False
                      show ?thesis
                      proof (cases ae)
                        case b11: (Some e)
                        from g0 g1 g2 g4 g5 g6 g7 g8 g9 g10 b11 E V P A S R show ?thesis
                          unfolding d dc by (simp add: Mount_def Let_def if_not_P[OF g3])
                      next
                        case g11: None
                        show ?thesis
                        proof (cases se)
                          case b12: (Some e)
                          from g0 g1 g2 g4 g5 g6 g7 g8 g9 g10 g11 b12 E V P A S R show ?thesis
                            unfolding d dc by (simp add: Mount_def Let_def if_not_P[OF g3])
                        next
                          case g12: None
                          from g0 g1 g2 g4 g5 g6 g7 g8 g9 g10 g11 g12 E V P A S R show ?thesis
                            unfolding d dc by (simp add: Mount_def Let_def if_not_P[OF g3])
                        qed
                      qed
                    qed
                  qed
                qed
              qed
            qed
          qed
        qed
      qed
    qed
  qed
qed

lemma Mount_shape:
  assumes run: "Mount env cfg w c src cpath opts = (res, cfg', w')"
  shows "\<exists>evs. trace w' = trace w @ evs \<and>
      ((snd res \<noteq> None \<and> cfg' = cfg \<and> disk w' = disk w
          \<and> (evs = [] \<or> (\<exists>b. evs = [EExists (GetLXCName cfg c) b])))
       \<or> (\<not> HasDevice cfg c (mountDeviceName env src opts)
           \<and> FindDeviceByPath cfg c cpath = None
           \<and> ((snd res \<noteq> None \<and> cfg' = cfg \<and> disk w' = disk w
                \<and> (evs = [EExists (GetLXCName cfg c) True, EIsPrivileged (GetLXCName cfg c)]
                     \<or> (\<exists>dc e. evs = [EExists (GetLXCName cfg c) True,
                                   EIsPrivileged (GetLXCName cfg c),
                                   EDeviceAdd (GetLXCName cfg c) (mountDeviceName env src opts)
                                     ''disk'' dc (Some e)])))
             \<or> (\<exists>e re p r1 r2 r3. snd res = Some (''failed to save config: '' @ e)
                   \<and> HasContainer cfg c
                   \<and> cfg' = AddDevice cfg c (mountDeviceName env src opts) \<lparr>dev_Type = ''disk'', dev_Config = Some (mountDeviceConfig env src cpath opts)\<rparr>
                   \<and> disk w' (configPath cfg) = disk w (configPath cfg)
                   \<and> (remove_err (save_faults env) = None \<longrightarrow> disk w' = disk w)
                   \<and> evs = [EExists (GetLXCName cfg c) True, EIsPrivileged (GetLXCName cfg c),
                         EDeviceAdd (GetLXCName cfg c) (mountDeviceName env src opts) ''disk'' (Some (mountDeviceConfig env src cpath opts)) None,
                         ESave (Some e), EDeviceRemove (GetLXCName cfg c) (mountDeviceName env src opts) re]
                   \<and> lxc_Exists env (runtime w) (GetLXCName cfg c) = (True, r1)
                   \<and> lxc_IsPrivileged env r1 (GetLXCName cfg c) = (Inr p, r2)
                   \<and> lxc_DeviceAdd env r2 (GetLXCName cfg c) (mountDeviceName env src opts) ''disk'' (Some (mountDeviceConfig env src cpath opts)) = (None, r3)
                   \<and> lxc_DeviceRemove env r3 (GetLXCName cfg c) (mountDeviceName env src opts) = (re, runtime w'))
             \<or> (\<exists>data p r1 r2. res = ((mountDeviceName env src opts), None)
                   \<and> HasContainer cfg c
                   \<and> cfg' = AddDevice cfg c (mountDeviceName env src opts) \<lparr>dev_Type = ''disk'', dev_Config = Some (mountDeviceConfig env src cpath opts)\<rparr>
                   \<and> yaml_Marshal env cfg' = Inr data
                   \<and> disk w' (configPath cfg) = Some \<lparr>content = data, mode = 420\<rparr>
                   \<and> evs = [EExists (GetLXCName cfg c) True, EIsPrivileged (GetLXCName cfg c),
                         EDeviceAdd (GetLXCName cfg c) (mountDeviceName env src opts) ''disk'' (Some (mountDeviceConfig env src cpath opts)) None,
                         ESave None]
                   \<and> lxc_Exists env (runtime w) (GetLXCName cfg c) = (True, r1)
                   \<and> lxc_IsPrivileged env r1 (GetLXCName cfg c) = (Inr p, r2)
                   \<and> lxc_DeviceAdd env r2 (GetLXCName cfg c) (mountDeviceName env src opts) ''disk'' (Some (mountDeviceConfig env src cpath opts)) = (None, runtime w')))))"
proof -
  let ?l = "GetLXCName cfg c"
  obtain ex w1 where E: "Exists env w ?l = (ex, w1)" by (cases "Exists env w ?l")
  obtain rs wn er where V: "ValidateSourcePath (host env) src = (rs, wn, er)"
    by (cases "ValidateSourcePath (host env) src")
  obtain pr w2 where P: "IsPrivileged env w1 ?l = (pr, w2)" by (cases "IsPrivileged env w1 ?l")
  define d where "d = (if opt_Name opts = [] then GenerateMountName rs else opt_Name opts)"
  define dc where "dc = [(''source'', rs), (''path'', cpath)]
              @ (if \<not> ReadWrite opts then [(''readonly'', ''true'')] else [])
              @ (if Shift opts then [(''shift'', ''true'')] else [])"
  obtain ae w3 where A: "DeviceAdd env w2 ?l d ''disk'' (Some dc) = (ae, w3)"
    by (cases "DeviceAdd env w2 ?l d ''disk'' (Some dc)")
  obtain se w4 where
    S: "SaveConfig env (AddDevice cfg c d \<lparr>dev_Type = ''disk'', dev_Config = Some dc\<rparr>) w3 = (se, w4)"
    by (cases "SaveConfig env (AddDevice cfg c d \<lparr>dev_Type = ''disk'', dev_Config = Some dc\<rparr>) w3")
  obtain re w5 where R: "DeviceRemove env w4 ?l d = (re, w5)"
    by (cases "DeviceRemove env w4 ?l d")
  have dn: "mountDeviceName env src opts = d"
    by (simp add: mountDeviceName_def d_def V)
  have dcn: "mountDeviceConfig env src cpath opts = dc"
    by (simp add: mountDeviceConfig_def dc_def V)
  note sh = Exists_shape[OF E] IsPrivileged_shape[OF P] DeviceAdd_shape[OF A]
            SaveConfig_shape[OF S] DeviceRemove_shape[OF R]
            IsPrivileged_run[OF P] DeviceAdd_run[OF A] DeviceRemove_run[OF R]
            SaveConfig_disk[OF S, unfolded configPath_AddDevice]
  from run Mount_unfold[OF E V P d_def dc_def A S R] sh
  have "\<exists>evs. trace w' = trace w @ evs \<and>
      ((snd res \<noteq> None \<and> cfg' = cfg \<and> disk w' = disk w
          \<and> (evs = [] \<or> (\<exists>b. evs = [EExists (GetLXCName cfg c) b])))
       \<or> (\<not> HasDevice cfg c (mountDeviceName env src opts)
           \<and> FindDeviceByPath cfg c cpath = None
           \<and> ((snd res \<noteq> None \<and> cfg' = cfg \<and> disk w' = disk w
                \<and> (evs = [EExists (GetLXCName cfg c) True, EIsPrivileged (GetLXCName cfg c)]
                     \<or> (\<exists>dc e. evs = [EExists (GetLXCName cfg c) True,
                                   EIsPrivileged (GetLXCName cfg c),
                                   EDeviceAdd (GetLXCName cfg c) (mountDeviceName env src opts)
                                     ''disk'' dc (Some e)])))
             \<or> (\<exists>e re p. snd res = Some (''failed to save config: '' @ e)
                   \<and> HasContainer cfg c
                   \<and> cfg' = AddDevice cfg c (mountDeviceName env src opts) \<lparr>dev_Type = ''disk'', dev_Config = Some (mountDeviceConfig env src cpath opts)\<rparr>
                   \<and> disk w' (configPath cfg) = disk w (configPath cfg)
                   \<and> (remove_err (save_faults env) = None \<longrightarrow> disk w' = disk w)
                   \<and> evs = [EExists (GetLXCName cfg c) True, EIsPrivileged (GetLXCName cfg c),
                         EDeviceAdd (GetLXCName cfg c) (mountDeviceName env src opts) ''disk'' (Some (mountDeviceConfig env src cpath opts)) None,
                         ESave (Some e), EDeviceRemove (GetLXCName cfg c) (mountDeviceName env src opts) re]
                   \<and> lxc_Exists env (runtime w) (GetLXCName cfg c) = (True, (runtime w1))
                   \<and> lxc_IsPrivileged env (runtime w1) (GetLXCName cfg c) = (Inr p, (runtime w2))
                   \<and> lxc_DeviceAdd env (runtime w2) (GetLXCName cfg c) (mountDeviceName env src opts) ''disk'' (Some (mountDeviceConfig env src cpath opts)) = (None, (runtime w3))
                   \<and> lxc_DeviceRemove env (runtime w3) (GetLXCName cfg c) (mountDeviceName env src opts) = (re, runtime w'))
             \<or> (\<exists>data p. res = ((mountDeviceName env src opts), None)
                   \<and> HasContainer cfg c
                   \<and> cfg' = AddDevice cfg c (mountDeviceName env src opts) \<lparr>dev_Type = ''disk'', dev_Config = Some (mountDeviceConfig env src cpath opts)\<rparr>
                   \<and> yaml_Marshal env cfg' = Inr data
                   \<and> disk w' (configPath cfg) = Some \<lparr>content = data, mode = 420\<rparr>
                   \<and> evs = [EExists (GetLXCName cfg c) True, EIsPrivileged (GetLXCName cfg c),
                         EDeviceAdd (GetLXCName cfg c) (mountDeviceName env src opts) ''disk'' (Some (mountDeviceConfig env src cpath opts)) None,
                         ESave None]
                   \<and> lxc_Exists env (runtime w) (GetLXCName cfg c) = (True, (runtime w1))
                   \<and> lxc_IsPrivileged env (runtime w1) (GetLXCName cfg c) = (Inr p, (runtime w2))
                   \<and> lxc_DeviceAdd env (runtime w2) (GetLXCName cfg c) (mountDeviceName env src opts) ''disk'' (Some (mountDeviceConfig env src cpath opts)) = (None, runtime w')))))"
    unfolding dn dcn
    by (auto split: if_splits option.splits sum.splits)
  then show ?thesis by fastforce
qed

lemma Contains_mid: "Contains m sub \<Longrightarrow> Contains (a @ b @ m @ z) sub"
  by (intro Contains_appendI2 Contains_appendI1)

lemma Mount_reaches_conflict_check:
  assumes hc: "HasContainer cfg c"
    and ex: "fst (Exists env w (GetLXCName cfg c))"
    and vs: "ValidateSourcePath (host env) src = (rs, wn, None)"
    and risk: "wn = [] \<or> AllowRiskyPath opts"
    and vp: "ValidateContainerPath cpath = None"
    and vn: "ValidateMountName (mountDeviceName env src opts) = None"
  shows "(HasDevice cfg c (mountDeviceName env src opts) \<longrightarrow>
            (\<exists>e. snd (fst (Mount env cfg w c src cpath opts)) = Some e
                 \<and> Contains e ''already exists''))
       \<and> (\<not> HasDevice cfg c (mountDeviceName env src opts)
            \<and> FindDeviceByPath cfg c cpath \<noteq> None \<longrightarrow>
            (\<exists>e. snd (fst (Mount env cfg w c src cpath opts)) = Some e
                 \<and> Contains e ''already mounted''))"
proof -
  let ?l = "GetLXCName cfg c"
  obtain b w1 where E0: "Exists env w ?l = (b, w1)" by (cases "Exists env w ?l")
  with ex have E: "Exists env w ?l = (True, w1)" by simp
  obtain pr w2 where P: "IsPrivileged env w1 ?l = (pr, w2)" by (cases "IsPrivileged env w1 ?l")
  define d where "d = (if opt_Name opts = [] then GenerateMountName rs else opt_Name opts)"
  define dc where "dc = [(''source'', rs), (''path'', cpath)]
              @ (if \<not> ReadWrite opts then [(''readonly'', ''true'')] else [])
              @ (if Shift opts then [(''shift'', ''true'')] else [])"
  obtain ae w3 where A: "DeviceAdd env w2 ?l d ''disk'' (Some dc) = (ae, w3)"
    by (cases "DeviceAdd env w2 ?l d ''disk'' (Some dc)")
  obtain se w4 where
    S: "SaveConfig env (AddDevice cfg c d \<lparr>dev_Type = ''disk'', dev_Config = Some dc\<rparr>) w3 = (se, w4)"
    by (cases "SaveConfig env (AddDevice cfg c d \<lparr>dev_Type = ''disk'', dev_Config = Some dc\<rparr>) w3")
  obtain re w5 where R: "DeviceRemove env w4 ?l d = (re, w5)"
    by (cases "DeviceRemove env w4 ?l d")
  have dn: "mountDeviceName env src opts = d"
    by (simp add: mountDeviceName_def d_def vs)
  note M = Mount_unfold[OF E vs P d_def dc_def A S R]
  have c1: "Contains (''device '' @ quoted d @ '' already exists on container '' @ quoted c)
              ''already exists''"
    by (rule Contains_mid) (simp add: HasPrefix_def)
  have c2: "Contains (''container path '' @ quoted cpath @ '' is already mounted by device ''
              @ quoted n) ''already mounted''" for n
    by (rule Contains_mid) (simp add: HasPrefix_def)
  have a: "HasDevice cfg c d \<longrightarrow>
            (\<exists>e. snd (fst (Mount env cfg w c src cpath opts)) = Some e
                 \<and> Contains e ''already exists'')"
    using hc risk vp vn[unfolded dn] c1 by (auto simp: M)
  have b: "\<not> HasDevice cfg c d \<and> FindDeviceByPath cfg c cpath \<noteq> None \<longrightarrow>
            (\<exists>e. snd (fst (Mount env cfg w c src cpath opts)) = Some e
                 \<and> Contains e ''already mounted'')"
    using hc risk vp vn[unfolded dn] c2 by (auto simp: M)
  from a b show ?thesis unfolding dn by blast
qed

lemma Mount_conflict_no_mutation:
  assumes run: "Mount env cfg w c src cpath opts = (res, cfg', w')"
    and conflict: "HasDevice cfg c (mountDeviceName env src opts)
                   \<or> FindDeviceByPath cfg c cpath \<noteq> None"
  shows "snd res \<noteq> None \<and> cfg' = cfg \<and> disk w' = disk w
       \<and> (\<exists>evs. trace w' = trace w @ evs \<and> \<not> list_ex isMutation evs)"
  using Mount_shape[OF run] conflict
  by (auto simp: isMutation_def)

text \<open>
  Claim C3, as stated, fails in its second part: the name conflict is checked first, so
  a call with both conflicts reports the name conflict only. Here the device \<^verbatim>\<open>repo\<close> of
  the container maps \<^verbatim>\<open>/ws\<close>, and mounting to \<^verbatim>\<open>/ws\<close> under the name \<^verbatim>\<open>repo\<close> gives an
  error that does not contain "already mounted".
\<close>

theorem Mount_conflicts_counterexample:
  "HasDevice repoConfig ''dev1'' (mountDeviceName (memEnv noFaults) ''/srv/data'' (demoOpts ''repo''))
   \<and> FindDeviceByPath repoConfig ''dev1'' ''/ws'' = Some ''repo''
   \<and> snd (fst (Mount (memEnv noFaults) repoConfig (demoWorld [] False) ''dev1''
                  ''/srv/data'' ''/ws'' (demoOpts ''repo'')))
       = Some (''device '' @ quoted ''repo'' @ '' already exists on container '' @ quoted ''dev1'')
   \<and> \<not> Contains (''device '' @ quoted ''repo'' @ '' already exists on container '' @ quoted ''dev1'')
                  ''already mounted''"
  by code_simp

text \<open>
  Claim C3, amended. A \<^verbatim>\<open>Mount\<close> call in which the resolved device name is already a
  device of the container, or some device of the container already maps the container
  path, fails and leaves the configuration and the disk as they were, and the calls it
  has issued include no \<^verbatim>\<open>DeviceAdd\<close>, no \<^verbatim>\<open>DeviceRemove\<close> and no save. When the call
  passes the checks that precede the conflict checks (the container is declared and
  exists in the runtime, the source path, the container path and the device name are
  valid), a name conflict gives an error containing "already exists", and a path conflict
  without a name conflict gives an error containing "already mounted".
\<close>

theorem Mount_conflicts:
  "(Mount env cfg w c src cpath opts = (res, cfg', w')
      \<and> (HasDevice cfg c (mountDeviceName env src opts) \<or> FindDeviceByPath cfg c cpath \<noteq> None)
    \<longrightarrow> snd res \<noteq> None \<and> cfg' = cfg \<and> disk w' = disk w
        \<and> (\<exists>evs. trace w' = trace w @ evs \<and> \<not> list_ex isMutation evs))
   \<and> (HasContainer cfg c \<and> fst (Exists env w (GetLXCName cfg c))
        \<and> ValidateSourcePath (host env) src = (rs, wn, None)
        \<and> (wn = [] \<or> AllowRiskyPath opts)
        \<and> ValidateContainerPath cpath = None
        \<and> ValidateMountName (mountDeviceName env src opts) = None
      \<longrightarrow> (HasDevice cfg c (mountDeviceName env src opts) \<longrightarrow>
             (\<exists>e. snd (fst (Mount env cfg w c src cpath opts)) = Some e
                  \<and> Contains e ''already exists''))
          \<and> (\<not> HasDevice cfg c (mountDeviceName env src opts)
               \<and> FindDeviceByPath cfg c cpath \<noteq> None \<longrightarrow>
             (\<exists>e. snd (fst (Mount env cfg w c src cpath opts)) = Some e
                  \<and> Contains e ''already mounted'')))"
proof (rule conjI; rule impI)
  assume "Mount env cfg w c src cpath opts = (res, cfg', w')
      \<and> (HasDevice cfg c (mountDeviceName env src opts) \<or> FindDeviceByPath cfg c cpath \<noteq> None)"
  then have "Mount env cfg w c src cpath opts = (res, cfg', w')"
    and "HasDevice cfg c (mountDeviceName env src opts) \<or> FindDeviceByPath cfg c cpath \<noteq> None"
    by simp_all
  then show "snd res \<noteq> None \<and> cfg' = cfg \<and> disk w' = disk w
        \<and> (\<exists>evs. trace w' = trace w @ evs \<and> \<not> list_ex isMutation evs)"
    by (rule Mount_conflict_no_mutation)
next
  assume "HasContainer cfg c \<and> fst (Exists env w (GetLXCName cfg c))
        \<and> ValidateSourcePath (host env) src = (rs, wn, None)
        \<and> (wn = [] \<or> AllowRiskyPath opts)
        \<and> ValidateContainerPath cpath = None
        \<and> ValidateMountName (mountDeviceName env src opts) = None"
  then have "HasContainer cfg c" and "fst (Exists env w (GetLXCName cfg c))"
    and "ValidateSourcePath (host env) src = (rs, wn, None)"
    and "wn = [] \<or> AllowRiskyPath opts"
    and "ValidateContainerPath cpath = None"
    and "ValidateMountName (mountDeviceName env src opts) = None"
    by simp_all
  then show "(HasDevice cfg c (mountDeviceName env src opts) \<longrightarrow>
             (\<exists>e. snd (fst (Mount env cfg w c src cpath opts)) = Some e
                  \<and> Contains e ''already exists''))
          \<and> (\<not> HasDevice cfg c (mountDeviceName env src opts)
               \<and> FindDeviceByPath cfg c cpath \<noteq> None \<longrightarrow>
             (\<exists>e. snd (fst (Mount env cfg w c src cpath opts)) = Some e
                  \<and> Contains e ''already mounted''))"
    by (rule Mount_reaches_conflict_check)
qed

theorem Mount_conflicts_witness:
  "HasContainer repoConfig ''dev1''
   \<and> fst (Exists (memEnv noFaults) (demoWorld [] False) (GetLXCName repoConfig ''dev1''))
   \<and> ValidateSourcePath (host (memEnv noFaults)) ''/srv/data'' = (''/srv/data'', [], None)
   \<and> ValidateContainerPath ''/ws'' = None
   \<and> ValidateMountName (mountDeviceName (memEnv noFaults) ''/srv/data'' (demoOpts ''repo'')) = None
   \<and> HasDevice repoConfig ''dev1'' (mountDeviceName (memEnv noFaults) ''/srv/data'' (demoOpts ''repo''))
   \<and> (\<exists>e. snd (fst (Mount (memEnv noFaults) repoConfig (demoWorld [] False) ''dev1''
                       ''/srv/data'' ''/ws'' (demoOpts ''repo''))) = Some e
          \<and> Contains e ''already exists'')
   \<and> trace (snd (snd (Mount (memEnv noFaults) repoConfig (demoWorld [] False) ''dev1''
                       ''/srv/data'' ''/ws'' (demoOpts ''repo'')))) = [EExists ''demo-dev1'' True]
   \<and> ValidateMountName (mountDeviceName (memEnv noFaults) ''/srv/data'' (demoOpts ''other'')) = None
   \<and> \<not> HasDevice repoConfig ''dev1'' (mountDeviceName (memEnv noFaults) ''/srv/data'' (demoOpts ''other''))
   \<and> FindDeviceByPath repoConfig ''dev1'' ''/ws'' = Some ''repo''
   \<and> (\<exists>e. snd (fst (Mount (memEnv noFaults) repoConfig (demoWorld [] False) ''dev1''
                       ''/srv/data'' ''/ws'' (demoOpts ''other''))) = Some e
          \<and> Contains e ''already mounted'')
   \<and> trace (snd (snd (Mount (memEnv noFaults) repoConfig (demoWorld [] False) ''dev1''
                       ''/srv/data'' ''/ws'' (demoOpts ''other'')))) = [EExists ''demo-dev1'' True]"
proof -
  have pre: "HasContainer repoConfig ''dev1''
   \<and> fst (Exists (memEnv noFaults) (demoWorld [] False) (GetLXCName repoConfig ''dev1''))
   \<and> ValidateSourcePath (host (memEnv noFaults)) ''/srv/data'' = (''/srv/data'', [], None)
   \<and> ValidateContainerPath ''/ws'' = None"
    by code_simp
  have n1: "ValidateMountName (mountDeviceName (memEnv noFaults) ''/srv/data'' (demoOpts ''repo'')) = None
   \<and> HasDevice repoConfig ''dev1'' (mountDeviceName (memEnv noFaults) ''/srv/data'' (demoOpts ''repo''))"
    by code_simp
  have n2: "ValidateMountName (mountDeviceName (memEnv noFaults) ''/srv/data'' (demoOpts ''other'')) = None
   \<and> \<not> HasDevice repoConfig ''dev1'' (mountDeviceName (memEnv noFaults) ''/srv/data'' (demoOpts ''other''))
   \<and> FindDeviceByPath repoConfig ''dev1'' ''/ws'' = Some ''repo''"
    by code_simp
  have t1: "trace (snd (snd (Mount (memEnv noFaults) repoConfig (demoWorld [] False) ''dev1''
                       ''/srv/data'' ''/ws'' (demoOpts ''repo'')))) = [EExists ''demo-dev1'' True]"
    by code_simp
  have t2: "trace (snd (snd (Mount (memEnv noFaults) repoConfig (demoWorld [] False) ''dev1''
                       ''/srv/data'' ''/ws'' (demoOpts ''other'')))) = [EExists ''demo-dev1'' True]"
    by code_simp
  from pre n1 n2 t1 t2
    Mount_conflicts [of "memEnv noFaults" repoConfig "demoWorld [] False" "''dev1''" "''/srv/data''"
       "''/ws''" "demoOpts ''repo''" _ _ _ "''/srv/data''" "[]"]
    Mount_conflicts [of "memEnv noFaults" repoConfig "demoWorld [] False" "''dev1''" "''/srv/data''"
       "''/ws''" "demoOpts ''other''" _ _ _ "''/srv/data''" "[]"]
  show ?thesis by blast
qed

text \<open>
  Claim C2, as stated, fails in its last part: the result of the \<^verbatim>\<open>DeviceRemove\<close> that
  follows a failed save is discarded, so with a driver whose \<^verbatim>\<open>DeviceRemove\<close> fails the
  runtime keeps the device while the document on disk is the previous one; \<^verbatim>\<open>Mount\<close>
  reports the save error only.
\<close>

theorem Mount_rollback_counterexample:
  "snd (fst (Mount (stuckEnv (noFaults\<lparr>rename_err := Some ''EXDEV''\<rparr>)) demoConfig (demoWorld [] False)
        ''dev1'' ''/srv/data'' ''/workspace'' (demoOpts [])))
       = Some ''failed to save config: failed to rename temp file: EXDEV''
   \<and> trace (snd (snd (Mount (stuckEnv (noFaults\<lparr>rename_err := Some ''EXDEV''\<rparr>)) demoConfig (demoWorld [] False)
        ''dev1'' ''/srv/data'' ''/workspace'' (demoOpts []))))
       = [EExists ''demo-dev1'' True, EIsPrivileged ''demo-dev1'',
        EDeviceAdd ''demo-dev1'' ''data'' ''disk''
          (Some [(''source'', ''/srv/data''), (''path'', ''/workspace''), (''readonly'', ''true'')]) None,
        ESave (Some ''failed to rename temp file: EXDEV''),
        EDeviceRemove ''demo-dev1'' ''data'' (Some ''device busy'')]
   \<and> mem_devices (runtime (snd (snd (Mount (stuckEnv (noFaults\<lparr>rename_err := Some ''EXDEV''\<rparr>)) demoConfig (demoWorld [] False)
        ''dev1'' ''/srv/data'' ''/workspace'' (demoOpts [])))))
       = [(''demo-dev1'', [\<lparr>di_Name = ''data'', di_Type = ''disk'',
             di_Config = (Some [(''source'', ''/srv/data''), (''path'', ''/workspace''), (''readonly'', ''true'')])\<rparr>])]
   \<and> mem_devices (runtime (demoWorld [] False)) = [(''demo-dev1'', [])]
   \<and> disk (snd (snd (Mount (stuckEnv (noFaults\<lparr>rename_err := Some ''EXDEV''\<rparr>)) demoConfig (demoWorld [] False)
        ''dev1'' ''/srv/data'' ''/workspace'' (demoOpts [])))) ''/proj/containers.yaml''
       = Some \<lparr>content = ''project: old'', mode = 420\<rparr>"
  by code_simp

text \<open>
  Claim C2, amended. In every run of \<^verbatim>\<open>Mount\<close>, a save is preceded by the successful
  \<^verbatim>\<open>DeviceAdd\<close> of the device with the configuration built from the resolved source and
  the container path, and the configuration is changed only after that \<^verbatim>\<open>DeviceAdd\<close>.
  When \<^verbatim>\<open>Mount\<close> succeeds, the document declares the device with that configuration, the
  file of the document on disk holds the serialization of this document, and the runtime
  is the one the \<^verbatim>\<open>DeviceAdd\<close> left. In every run in which the save fails, the next and
  last call is the \<^verbatim>\<open>DeviceRemove\<close> of the same device on the same container, \<^verbatim>\<open>Mount\<close>
  returns the error "failed to save config", the file of the document on disk is
  unchanged (the whole disk when the temporary file could be removed), the runtime is the
  one that \<^verbatim>\<open>DeviceRemove\<close> left, whatever its result, and the document in memory still
  declares the device.
\<close>

theorem Mount_runtime_first_rollback:
  assumes run: "Mount env cfg w c src cpath opts = (res, cfg', w')"
  shows "\<exists>evs. trace w' = trace w @ evs
     \<and> (list_ex isSave evs \<longrightarrow>
          (\<exists>r post. evs = [EExists (GetLXCName cfg c) True, EIsPrivileged (GetLXCName cfg c),
                   EDeviceAdd (GetLXCName cfg c) (mountDeviceName env src opts) ''disk'' (Some (mountDeviceConfig env src cpath opts)) None,
                   ESave r] @ post
              \<and> cfg' = AddDevice cfg c (mountDeviceName env src opts) \<lparr>dev_Type = ''disk'', dev_Config = Some (mountDeviceConfig env src cpath opts)\<rparr>))
     \<and> (cfg' \<noteq> cfg \<longrightarrow>
          EDeviceAdd (GetLXCName cfg c) (mountDeviceName env src opts) ''disk'' (Some (mountDeviceConfig env src cpath opts)) None \<in> set evs)
     \<and> (snd res = None \<longrightarrow>
          fst res = (mountDeviceName env src opts)
          \<and> evs = [EExists (GetLXCName cfg c) True, EIsPrivileged (GetLXCName cfg c),
                   EDeviceAdd (GetLXCName cfg c) (mountDeviceName env src opts) ''disk'' (Some (mountDeviceConfig env src cpath opts)) None,
                   ESave None]
          \<and> HasDevice cfg' c (mountDeviceName env src opts)
          \<and> declaredDevice cfg' c (mountDeviceName env src opts) = Some \<lparr>dev_Type = ''disk'', dev_Config = Some (mountDeviceConfig env src cpath opts)\<rparr>
          \<and> mapGet (Some (mountDeviceConfig env src cpath opts)) ''source'' = fst (ValidateSourcePath (host env) src)
          \<and> mapGet (Some (mountDeviceConfig env src cpath opts)) ''path'' = cpath
          \<and> (\<exists>data. yaml_Marshal env cfg' = Inr data
                \<and> disk w' (configPath cfg') = Some \<lparr>content = data, mode = 420\<rparr>)
          \<and> (\<exists>p r1 r2. lxc_Exists env (runtime w) (GetLXCName cfg c) = (True, r1)
                \<and> lxc_IsPrivileged env r1 (GetLXCName cfg c) = (Inr p, r2)
                \<and> lxc_DeviceAdd env r2 (GetLXCName cfg c) (mountDeviceName env src opts) ''disk'' (Some (mountDeviceConfig env src cpath opts)) = (None, runtime w')))
     \<and> (\<forall>e. ESave (Some e) \<in> set evs \<longrightarrow>
          snd res = Some (''failed to save config: '' @ e)
          \<and> disk w' (configPath cfg') = disk w (configPath cfg')
          \<and> (remove_err (save_faults env) = None \<longrightarrow> disk w' = disk w)
          \<and> HasDevice cfg' c (mountDeviceName env src opts)
          \<and> (\<exists>re p r1 r2 r3. evs = [EExists (GetLXCName cfg c) True, EIsPrivileged (GetLXCName cfg c),
                   EDeviceAdd (GetLXCName cfg c) (mountDeviceName env src opts) ''disk'' (Some (mountDeviceConfig env src cpath opts)) None,
                   ESave (Some e), EDeviceRemove (GetLXCName cfg c) (mountDeviceName env src opts) re]
                \<and> lxc_Exists env (runtime w) (GetLXCName cfg c) = (True, r1)
                \<and> lxc_IsPrivileged env r1 (GetLXCName cfg c) = (Inr p, r2)
                \<and> lxc_DeviceAdd env r2 (GetLXCName cfg c) (mountDeviceName env src opts) ''disk'' (Some (mountDeviceConfig env src cpath opts)) = (None, r3)
                \<and> lxc_DeviceRemove env r3 (GetLXCName cfg c) (mountDeviceName env src opts) = (re, runtime w')))"
proof -
  from Mount_shape[OF run] obtain evs where
    tr: "trace w' = trace w @ evs" and
    sh: "((snd res \<noteq> None \<and> cfg' = cfg \<and> disk w' = disk w
          \<and> (evs = [] \<or> (\<exists>b. evs = [EExists (GetLXCName cfg c) b])))
       \<or> (\<not> HasDevice cfg c (mountDeviceName env src opts)
           \<and> FindDeviceByPath cfg c cpath = None
           \<and> ((snd res \<noteq> None \<and> cfg' = cfg \<and> disk w' = disk w
                \<and> (evs = [EExists (GetLXCName cfg c) True, EIsPrivileged (GetLXCName cfg c)]
                     \<or> (\<exists>dc e. evs = [EExists (GetLXCName cfg c) True,
                                   EIsPrivileged (GetLXCName cfg c),
                                   EDeviceAdd (GetLXCName cfg c) (mountDeviceName env src opts)
                                     ''disk'' dc (Some e)])))
             \<or> (\<exists>e re p r1 r2 r3. snd res = Some (''failed to save config: '' @ e)
                   \<and> HasContainer cfg c
                   \<and> cfg' = AddDevice cfg c (mountDeviceName env src opts) \<lparr>dev_Type = ''disk'', dev_Config = Some (mountDeviceConfig env src cpath opts)\<rparr>
                   \<and> disk w' (configPath cfg) = disk w (configPath cfg)
                   \<and> (remove_err (save_faults env) = None \<longrightarrow> disk w' = disk w)
                   \<and> evs = [EExists (GetLXCName cfg c) True, EIsPrivileged (GetLXCName cfg c),
                         EDeviceAdd (GetLXCName cfg c) (mountDeviceName env src opts) ''disk'' (Some (mountDeviceConfig env src cpath opts)) None,
                         ESave (Some e), EDeviceRemove (GetLXCName cfg c) (mountDeviceName env src opts) re]
                   \<and> lxc_Exists env (runtime w) (GetLXCName cfg c) = (True, r1)
                   \<and> lxc_IsPrivileged env r1 (GetLXCName cfg c) = (Inr p, r2)
                   \<and> lxc_DeviceAdd env r2 (GetLXCName cfg c) (mountDeviceName env src opts) ''disk'' (Some (mountDeviceConfig env src cpath opts)) = (None, r3)
                   \<and> lxc_DeviceRemove env r3 (GetLXCName cfg c) (mountDeviceName env src opts) = (re, runtime w'))
             \<or> (\<exists>data p r1 r2. res = ((mountDeviceName env src opts), None)
                   \<and> HasContainer cfg c
                   \<and> cfg' = AddDevice cfg c (mountDeviceName env src opts) \<lparr>dev_Type = ''disk'', dev_Config = Some (mountDeviceConfig env src cpath opts)\<rparr>
                   \<and> yaml_Marshal env cfg' = Inr data
                   \<and> disk w' (configPath cfg) = Some \<lparr>content = data, mode = 420\<rparr>
                   \<and> evs = [EExists (GetLXCName cfg c) True, EIsPrivileged (GetLXCName cfg c),
                         EDeviceAdd (GetLXCName cfg c) (mountDeviceName env src opts) ''disk'' (Some (mountDeviceConfig env src cpath opts)) None,
                         ESave None]
                   \<and> lxc_Exists env (runtime w) (GetLXCName cfg c) = (True, r1)
                   \<and> lxc_IsPrivileged env r1 (GetLXCName cfg c) = (Inr p, r2)
                   \<and> lxc_DeviceAdd env r2 (GetLXCName cfg c) (mountDeviceName env src opts) ''disk'' (Some (mountDeviceConfig env src cpath opts)) = (None, runtime w')))))"
    by (elim exE conjE) (rule that)
  note ad = HasDevice_AddDevice declaredDevice_AddDevice configPath_AddDevice
  from sh have a: "list_ex isSave evs \<longrightarrow>
          (\<exists>r post. evs = [EExists (GetLXCName cfg c) True, EIsPrivileged (GetLXCName cfg c),
                   EDeviceAdd (GetLXCName cfg c) (mountDeviceName env src opts) ''disk'' (Some (mountDeviceConfig env src cpath opts)) None,
                   ESave r] @ post
              \<and> cfg' = AddDevice cfg c (mountDeviceName env src opts) \<lparr>dev_Type = ''disk'', dev_Config = Some (mountDeviceConfig env src cpath opts)\<rparr>)"
    by (auto simp: isSave_def)
  from sh have b: "cfg' \<noteq> cfg \<longrightarrow>
          EDeviceAdd (GetLXCName cfg c) (mountDeviceName env src opts) ''disk'' (Some (mountDeviceConfig env src cpath opts)) None \<in> set evs"
    by auto
  have m: "mapGet (Some (mountDeviceConfig env src cpath opts)) ''source'' = fst (ValidateSourcePath (host env) src)
          \<and> mapGet (Some (mountDeviceConfig env src cpath opts)) ''path'' = cpath"
    by (simp add: mountDeviceConfig_def mapGet_def)
  from sh m have c: "snd res = None \<longrightarrow>
          fst res = (mountDeviceName env src opts)
          \<and> evs = [EExists (GetLXCName cfg c) True, EIsPrivileged (GetLXCName cfg c),
                   EDeviceAdd (GetLXCName cfg c) (mountDeviceName env src opts) ''disk'' (Some (mountDeviceConfig env src cpath opts)) None,
                   ESave None]
          \<and> HasDevice cfg' c (mountDeviceName env src opts)
          \<and> declaredDevice cfg' c (mountDeviceName env src opts) = Some \<lparr>dev_Type = ''disk'', dev_Config = Some (mountDeviceConfig env src cpath opts)\<rparr>
          \<and> mapGet (Some (mountDeviceConfig env src cpath opts)) ''source'' = fst (ValidateSourcePath (host env) src)
          \<and> mapGet (Some (mountDeviceConfig env src cpath opts)) ''path'' = cpath
          \<and> (\<exists>data. yaml_Marshal env cfg' = Inr data
                \<and> disk w' (configPath cfg') = Some \<lparr>content = data, mode = 420\<rparr>)
          \<and> (\<exists>p r1 r2. lxc_Exists env (runtime w) (GetLXCName cfg c) = (True, r1)
                \<and> lxc_IsPrivileged env r1 (GetLXCName cfg c) = (Inr p, r2)
                \<and> lxc_DeviceAdd env r2 (GetLXCName cfg c) (mountDeviceName env src opts) ''disk'' (Some (mountDeviceConfig env src cpath opts)) = (None, runtime w'))"
    by (auto simp: ad)
  from sh have d: "\<forall>e. ESave (Some e) \<in> set evs \<longrightarrow>
          snd res = Some (''failed to save config: '' @ e)
          \<and> disk w' (configPath cfg') = disk w (configPath cfg')
          \<and> (remove_err (save_faults env) = None \<longrightarrow> disk w' = disk w)
          \<and> HasDevice cfg' c (mountDeviceName env src opts)
          \<and> (\<exists>re p r1 r2 r3. evs = [EExists (GetLXCName cfg c) True, EIsPrivileged (GetLXCName cfg c),
                   EDeviceAdd (GetLXCName cfg c) (mountDeviceName env src opts) ''disk'' (Some (mountDeviceConfig env src cpath opts)) None,
                   ESave (Some e), EDeviceRemove (GetLXCName cfg c) (mountDeviceName env src opts) re]
                \<and> lxc_Exists env (runtime w) (GetLXCName cfg c) = (True, r1)
                \<and> lxc_IsPrivileged env r1 (GetLXCName cfg c) = (Inr p, r2)
                \<and> lxc_DeviceAdd env r2 (GetLXCName cfg c) (mountDeviceName env src opts) ''disk'' (Some (mountDeviceConfig env src cpath opts)) = (None, r3)
                \<and> lxc_DeviceRemove env r3 (GetLXCName cfg c) (mountDeviceName env src opts) = (re, runtime w'))"
    by (auto simp: ad)
  show ?thesis by (rule exI[of _ evs], intro conjI) (rule tr a b c d)+
qed

theorem Mount_runtime_first_rollback_witness:
  "trace (snd (snd (Mount (memEnv (noFaults\<lparr>rename_err := Some ''EXDEV''\<rparr>)) demoConfig (demoWorld [] False)
        ''dev1'' ''/srv/data'' ''/workspace'' (demoOpts []))))
     = [EExists ''demo-dev1'' True, EIsPrivileged ''demo-dev1'',
        EDeviceAdd ''demo-dev1'' ''data'' ''disk''
          (Some [(''source'', ''/srv/data''), (''path'', ''/workspace''), (''readonly'', ''true'')]) None,
        ESave (Some ''failed to rename temp file: EXDEV''),
        EDeviceRemove ''demo-dev1'' ''data'' None]
   \<and> snd (fst (Mount (memEnv (noFaults\<lparr>rename_err := Some ''EXDEV''\<rparr>)) demoConfig (demoWorld [] False)
        ''dev1'' ''/srv/data'' ''/workspace'' (demoOpts [])))
       = Some ''failed to save config: failed to rename temp file: EXDEV''
   \<and> disk (snd (snd (Mount (memEnv (noFaults\<lparr>rename_err := Some ''EXDEV''\<rparr>)) demoConfig (demoWorld [] False)
        ''dev1'' ''/srv/data'' ''/workspace'' (demoOpts [])))) = disk (demoWorld [] False)
   \<and> HasDevice (fst (snd (Mount (memEnv (noFaults\<lparr>rename_err := Some ''EXDEV''\<rparr>)) demoConfig (demoWorld [] False)
        ''dev1'' ''/srv/data'' ''/workspace'' (demoOpts [])))) ''dev1'' ''data''
   \<and> mem_devices (runtime (snd (snd (Mount (memEnv (noFaults\<lparr>rename_err := Some ''EXDEV''\<rparr>)) demoConfig (demoWorld [] False)
        ''dev1'' ''/srv/data'' ''/workspace'' (demoOpts [])))))
       = mem_devices (runtime (demoWorld [] False))
   \<and> fst (Mount (listingEnv noFaults) demoConfig (demoWorld [] False)
        ''dev1'' ''/srv/data'' ''/workspace'' (demoOpts [])) = (''data'', None)
   \<and> HasDevice (fst (snd (Mount (listingEnv noFaults) demoConfig (demoWorld [] False)
        ''dev1'' ''/srv/data'' ''/workspace'' (demoOpts [])))) ''dev1'' ''data''
   \<and> disk (snd (snd (Mount (listingEnv noFaults) demoConfig (demoWorld [] False)
        ''dev1'' ''/srv/data'' ''/workspace'' (demoOpts [])))) ''/proj/containers.yaml''
       = Some \<lparr>content = ''project: demo dev1: data'', mode = 420\<rparr>
   \<and> mem_devices (runtime (snd (snd (Mount (listingEnv noFaults) demoConfig (demoWorld [] False)
        ''dev1'' ''/srv/data'' ''/workspace'' (demoOpts [])))))
       = [(''demo-dev1'', [\<lparr>di_Name = ''data'', di_Type = ''disk'',
             di_Config = (Some [(''source'', ''/srv/data''), (''path'', ''/workspace''), (''readonly'', ''true'')])\<rparr>])]"
proof -
  have t: "trace (snd (snd (Mount (memEnv (noFaults\<lparr>rename_err := Some ''EXDEV''\<rparr>)) demoConfig (demoWorld [] False)
        ''dev1'' ''/srv/data'' ''/workspace'' (demoOpts []))))
     = [EExists ''demo-dev1'' True, EIsPrivileged ''demo-dev1'',
        EDeviceAdd ''demo-dev1'' ''data'' ''disk''
          (Some [(''source'', ''/srv/data''), (''path'', ''/workspace''), (''readonly'', ''true'')]) None,
        ESave (Some ''failed to rename temp file: EXDEV''),
        EDeviceRemove ''demo-dev1'' ''data'' None]"
    by code_simp
  have r: "mem_devices (runtime (snd (snd (Mount (memEnv (noFaults\<lparr>rename_err := Some ''EXDEV''\<rparr>)) demoConfig (demoWorld [] False)
        ''dev1'' ''/srv/data'' ''/workspace'' (demoOpts [])))))
       = mem_devices (runtime (demoWorld [] False))"
    by code_simp
  have f: "remove_err (save_faults (memEnv (noFaults\<lparr>rename_err := Some ''EXDEV''\<rparr>))) = None"
    by code_simp
  have n: "mountDeviceName (memEnv (noFaults\<lparr>rename_err := Some ''EXDEV''\<rparr>)) ''/srv/data'' (demoOpts []) = ''data''
     \<and> mountDeviceName (listingEnv noFaults) ''/srv/data'' (demoOpts []) = ''data''"
    by code_simp
  have run: "(Mount (memEnv (noFaults\<lparr>rename_err := Some ''EXDEV''\<rparr>)) demoConfig (demoWorld [] False)
        ''dev1'' ''/srv/data'' ''/workspace'' (demoOpts [])) = (fst (Mount (memEnv (noFaults\<lparr>rename_err := Some ''EXDEV''\<rparr>)) demoConfig (demoWorld [] False)
        ''dev1'' ''/srv/data'' ''/workspace'' (demoOpts [])), fst (snd (Mount (memEnv (noFaults\<lparr>rename_err := Some ''EXDEV''\<rparr>)) demoConfig (demoWorld [] False)
        ''dev1'' ''/srv/data'' ''/workspace'' (demoOpts []))), snd (snd (Mount (memEnv (noFaults\<lparr>rename_err := Some ''EXDEV''\<rparr>)) demoConfig (demoWorld [] False)
        ''dev1'' ''/srv/data'' ''/workspace'' (demoOpts []))))"
    by simp
  have w0: "trace (demoWorld [] False) = []" by (simp add: demoWorld_def)
  from Mount_runtime_first_rollback [OF run] obtain evs where
    e1: "trace (snd (snd (Mount (memEnv (noFaults\<lparr>rename_err := Some ''EXDEV''\<rparr>)) demoConfig (demoWorld [] False)
        ''dev1'' ''/srv/data'' ''/workspace'' (demoOpts [])))) = trace (demoWorld [] False) @ evs" and
    e2: "\<forall>e. ESave (Some e) \<in> set evs \<longrightarrow>
          snd (fst (Mount (memEnv (noFaults\<lparr>rename_err := Some ''EXDEV''\<rparr>)) demoConfig (demoWorld [] False)
        ''dev1'' ''/srv/data'' ''/workspace'' (demoOpts []))) = Some (''failed to save config: '' @ e)
          \<and> (remove_err (save_faults (memEnv (noFaults\<lparr>rename_err := Some ''EXDEV''\<rparr>))) = None \<longrightarrow>
               disk (snd (snd (Mount (memEnv (noFaults\<lparr>rename_err := Some ''EXDEV''\<rparr>)) demoConfig (demoWorld [] False)
        ''dev1'' ''/srv/data'' ''/workspace'' (demoOpts [])))) = disk (demoWorld [] False))
          \<and> HasDevice (fst (snd (Mount (memEnv (noFaults\<lparr>rename_err := Some ''EXDEV''\<rparr>)) demoConfig (demoWorld [] False)
        ''dev1'' ''/srv/data'' ''/workspace'' (demoOpts [])))) ''dev1''
               (mountDeviceName (memEnv (noFaults\<lparr>rename_err := Some ''EXDEV''\<rparr>)) ''/srv/data'' (demoOpts []))"
    by blast
  from e1 t w0 have "ESave (Some ''failed to rename temp file: EXDEV'') \<in> set evs" by auto
  with e2 f n have fail: "snd (fst (Mount (memEnv (noFaults\<lparr>rename_err := Some ''EXDEV''\<rparr>)) demoConfig (demoWorld [] False)
        ''dev1'' ''/srv/data'' ''/workspace'' (demoOpts [])))
          = Some (''failed to save config: '' @ ''failed to rename temp file: EXDEV'')
     \<and> disk (snd (snd (Mount (memEnv (noFaults\<lparr>rename_err := Some ''EXDEV''\<rparr>)) demoConfig (demoWorld [] False)
        ''dev1'' ''/srv/data'' ''/workspace'' (demoOpts [])))) = disk (demoWorld [] False)
     \<and> HasDevice (fst (snd (Mount (memEnv (noFaults\<lparr>rename_err := Some ''EXDEV''\<rparr>)) demoConfig (demoWorld [] False)
        ''dev1'' ''/srv/data'' ''/workspace'' (demoOpts [])))) ''dev1'' ''data''"
    by auto
  have ok: "snd (fst (Mount (listingEnv noFaults) demoConfig (demoWorld [] False)
        ''dev1'' ''/srv/data'' ''/workspace'' (demoOpts []))) = None" by code_simp
  have r2: "mem_devices (runtime (snd (snd (Mount (listingEnv noFaults) demoConfig (demoWorld [] False)
        ''dev1'' ''/srv/data'' ''/workspace'' (demoOpts [])))))
       = [(''demo-dev1'', [\<lparr>di_Name = ''data'', di_Type = ''disk'',
             di_Config = (Some [(''source'', ''/srv/data''), (''path'', ''/workspace''), (''readonly'', ''true'')])\<rparr>])]"
    by code_simp
  have y: "yaml_Marshal (listingEnv noFaults) (fst (snd (Mount (listingEnv noFaults) demoConfig (demoWorld [] False)
        ''dev1'' ''/srv/data'' ''/workspace'' (demoOpts []))))
             = Inr ''project: demo dev1: data''
     \<and> configPath (fst (snd (Mount (listingEnv noFaults) demoConfig (demoWorld [] False)
        ''dev1'' ''/srv/data'' ''/workspace'' (demoOpts [])))) = ''/proj/containers.yaml''"
    by code_simp
  have run2: "(Mount (listingEnv noFaults) demoConfig (demoWorld [] False)
        ''dev1'' ''/srv/data'' ''/workspace'' (demoOpts [])) = (fst (Mount (listingEnv noFaults) demoConfig (demoWorld [] False)
        ''dev1'' ''/srv/data'' ''/workspace'' (demoOpts [])), fst (snd (Mount (listingEnv noFaults) demoConfig (demoWorld [] False)
        ''dev1'' ''/srv/data'' ''/workspace'' (demoOpts []))), snd (snd (Mount (listingEnv noFaults) demoConfig (demoWorld [] False)
        ''dev1'' ''/srv/data'' ''/workspace'' (demoOpts []))))"
    by simp
  from Mount_runtime_first_rollback [OF run2] obtain evs2 where
    s1: "snd (fst (Mount (listingEnv noFaults) demoConfig (demoWorld [] False)
        ''dev1'' ''/srv/data'' ''/workspace'' (demoOpts []))) = None \<longrightarrow>
          fst (fst (Mount (listingEnv noFaults) demoConfig (demoWorld [] False)
        ''dev1'' ''/srv/data'' ''/workspace'' (demoOpts []))) = mountDeviceName (listingEnv noFaults) ''/srv/data'' (demoOpts [])
          \<and> HasDevice (fst (snd (Mount (listingEnv noFaults) demoConfig (demoWorld [] False)
        ''dev1'' ''/srv/data'' ''/workspace'' (demoOpts [])))) ''dev1''
               (mountDeviceName (listingEnv noFaults) ''/srv/data'' (demoOpts []))
          \<and> (\<exists>data. yaml_Marshal (listingEnv noFaults) (fst (snd (Mount (listingEnv noFaults) demoConfig (demoWorld [] False)
        ''dev1'' ''/srv/data'' ''/workspace'' (demoOpts [])))) = Inr data
                \<and> disk (snd (snd (Mount (listingEnv noFaults) demoConfig (demoWorld [] False)
        ''dev1'' ''/srv/data'' ''/workspace'' (demoOpts [])))) (configPath (fst (snd (Mount (listingEnv noFaults) demoConfig (demoWorld [] False)
        ''dev1'' ''/srv/data'' ''/workspace'' (demoOpts [])))))
                    = Some \<lparr>content = data, mode = 420\<rparr>)"
    by blast
  from s1 ok n y have succ: "fst (fst (Mount (listingEnv noFaults) demoConfig (demoWorld [] False)
        ''dev1'' ''/srv/data'' ''/workspace'' (demoOpts []))) = ''data''
     \<and> HasDevice (fst (snd (Mount (listingEnv noFaults) demoConfig (demoWorld [] False)
        ''dev1'' ''/srv/data'' ''/workspace'' (demoOpts [])))) ''dev1'' ''data''
     \<and> disk (snd (snd (Mount (listingEnv noFaults) demoConfig (demoWorld [] False)
        ''dev1'' ''/srv/data'' ''/workspace'' (demoOpts [])))) ''/proj/containers.yaml''
         = Some \<lparr>content = ''project: demo dev1: data'', mode = 420\<rparr>"
    by auto
  from succ ok have res: "fst (Mount (listingEnv noFaults) demoConfig (demoWorld [] False)
        ''dev1'' ''/srv/data'' ''/workspace'' (demoOpts [])) = (''data'', None)"
    by (simp add: prod_eq_iff)
  from t fail r res succ r2 show ?thesis by simp
qed

subsection \<open>Listing mounts\<close>

















subsection \<open>Synchronising mounts\<close>











end

